theory Spec2Isabelle
  imports Complex_Main "HOL-Library.AList"
begin

section \<open>Python values\<close>

text \<open>
  A Python \<open>str\<close> is a sequence of Unicode code points, so a string of the program is a
  list of code points here; \<open>lit\<close> turns an ASCII literal of the source into one.
  The values the remote catalog delivers are what \<open>response.json()\<close> builds: \<open>None\<close>,
  booleans, integers, floats (finite ones, by their value), strings, lists and dicts
  (association lists; a lookup reads the first entry of a key).
\<close>

type_synonym codepoint = nat
type_synonym pystr = "codepoint list"

definition lit :: "string \<Rightarrow> pystr" where
  "lit s = map of_char s"

datatype json =
    JNull
  | JBool bool
  | JInt int
  | JFloat real
  | JStr pystr
  | JList "json list"
  | JObj "(pystr \<times> json) list"

type_synonym pydict = "(pystr \<times> json) list"

text \<open>The exceptions the modelled code can meet, by their Python class.\<close>

datatype exn =
    TypeError
  | AttributeError
  | KeyError
  | ValueError
  | OSError
  | IntegrityError
  | OperationalError
  | SqliteError
  | RequestException
  | ExternalError

text \<open>Truthiness, as \<open>if x\<close> and \<open>not x\<close> and \<open>x or y\<close> read a value.\<close>

fun truthy :: "json \<Rightarrow> bool" where
  "truthy JNull = False"
| "truthy (JBool b) = b"
| "truthy (JInt i) = (i \<noteq> 0)"
| "truthy (JFloat x) = (x \<noteq> 0)"
| "truthy (JStr s) = (s \<noteq> [])"
| "truthy (JList xs) = (xs \<noteq> [])"
| "truthy (JObj kvs) = (kvs \<noteq> [])"

definition py_or :: "json \<Rightarrow> json \<Rightarrow> json" where
  "py_or a b = (if truthy a then a else b)"

text \<open>\<open>d.get(key)\<close> and \<open>d.get(key, default)\<close> on a dict.\<close>

definition dict_get :: "pydict \<Rightarrow> pystr \<Rightarrow> json \<Rightarrow> json" where
  "dict_get d k dflt = (case map_of d k of None \<Rightarrow> dflt | Some v \<Rightarrow> v)"

text \<open>
  \<open>x.get(key, default)\<close> on any value: only a dict has the method, every other JSON
  value raises \<open>AttributeError\<close>.
\<close>

fun py_get :: "json \<Rightarrow> pystr \<Rightarrow> json \<Rightarrow> exn + json" where
  "py_get (JObj d) k dflt = Inr (dict_get d k dflt)"
| "py_get _ k dflt = Inl AttributeError"

text \<open>
  \<open>x[key]\<close> with a string key: a dict raises \<open>KeyError\<close> on a missing key, a string or
  a list refuses a string index, and the other values are not subscriptable.
\<close>

fun py_getitem :: "json \<Rightarrow> pystr \<Rightarrow> exn + json" where
  "py_getitem (JObj d) k = (case map_of d k of None \<Rightarrow> Inl KeyError | Some v \<Rightarrow> Inr v)"
| "py_getitem _ k = Inl TypeError"

text \<open>
  \<open>for x in v\<close>: a list gives its elements, a dict its keys, a string its characters as
  one-character strings; the other values are not iterable.
\<close>

fun py_iter :: "json \<Rightarrow> exn + json list" where
  "py_iter (JList xs) = Inr xs"
| "py_iter (JObj kvs) = Inr (map (\<lambda>kv. JStr (fst kv)) kvs)"
| "py_iter (JStr s) = Inr (map (\<lambda>c. JStr [c]) s)"
| "py_iter _ = Inl TypeError"

text \<open>\<open>str(i)\<close> of an integer: its decimal digits, with a minus sign when negative.\<close>

fun str_nat :: "nat \<Rightarrow> pystr" where
  "str_nat n = (if n < 10 then [48 + n] else str_nat (n div 10) @ [48 + n mod 10])"

definition str_int :: "int \<Rightarrow> pystr" where
  "str_int i = (if i < 0 then 45 # str_nat (nat (- i)) else str_nat (nat i))"

section \<open>The history store (src/database/handler.py)\<close>

text \<open>
  The two tables of \<open>create_tables\<close>. A row of \<open>download_history\<close> has the columns
  \<open>id\<close>, \<open>filename\<close>, \<open>category\<close>, \<open>url\<close> and \<open>download_date\<close>; the callers bind Python
  strings to the three text columns, so \<open>NOT NULL\<close> holds of every row that is bound.
  \<open>history_seq\<close> is the counter SQLite keeps for \<open>AUTOINCREMENT\<close>. A row of \<open>clients\<close>
  is a \<open>client_id\<close> (the primary key) with its \<open>client_name\<close>.
\<close>

record history_row =
  h_id :: nat
  h_filename :: pystr
  h_category :: pystr
  h_url :: pystr
  h_download_date :: nat

text \<open>
  \<open>_connection\<close> (lines 16 to 24) opens one connection for each thread that calls the
  handler. The threads of the program: the thread of the window, which builds the
  handler and clears the history; the thread of a run (\<open>download_thread_func\<close>), which
  asks for keys and records the documents; the thread of the event loop's executor,
  which syncs the clients; and the worker threads of a pool, which record the images.
\<close>

datatype thread =
    Main_thread
  | Download_thread
  | Executor_thread
  | Pool_thread nat

text \<open>
  The connections share the database file, and SQLite lets one connection write at a
  time. The \<open>sqlite3\<close> module opens a transaction before an \<open>INSERT\<close>, a \<open>REPLACE\<close> or
  a \<open>DELETE\<close>; the statement takes the write lock of the file for its connection, and
  the connection keeps the lock until it commits or rolls back. The handler commits
  after a statement that succeeded and never rolls back, so a connection whose
  statement took the lock and then raised keeps the lock (\<open>Held\<close>) until the same
  thread makes a write that succeeds, or until the connection is closed. The
  connection of a thread that has ended is closed when the interpreter frees it, which
  is when the garbage collector next visits it; until then its lock stays
  (\<open>Orphaned\<close>). The threads of a run and of a pool are new ones each time, so the
  lock that a thread of an earlier run or pool kept is orphaned. A statement that is
  refused the lock waits for it (5 seconds, the default of \<open>sqlite3.connect\<close>) and
  then raises \<open>OperationalError\<close>, \<open>database is locked\<close>.

  The tables below are the committed ones. A \<open>SELECT\<close> reads them; the shared lock a
  reader holds while it reads is not part of the model, so a read is never refused and
  a commit never waits for a reader. (A connection keeps its shared lock past the
  \<open>SELECT\<close> only inside a transaction that a refused write of its own left open.)
\<close>

datatype lock =
    Unlocked
  | Held thread
  | Orphaned

record database =
  download_history :: "history_row list"
  history_seq :: nat
  clients :: "(int \<times> pystr) list"
  write_lock :: lock

text \<open>
  \<open>CREATE TABLE IF NOT EXISTS\<close>, twice: a database file without the tables gets them
  empty, one that has them keeps them.
\<close>

definition create_tables :: "database option \<Rightarrow> database" where
  "create_tables file =
     (case file of
        None \<Rightarrow> \<lparr>download_history = [], history_seq = 0, clients = [], write_lock = Unlocked\<rparr>
      | Some db \<Rightarrow> db)"

text \<open>The rows \<open>WHERE filename = ? AND category = ?\<close> selects.\<close>

definition rows_with_key :: "database \<Rightarrow> pystr \<Rightarrow> pystr \<Rightarrow> history_row list" where
  "rows_with_key db fname cat =
     filter (\<lambda>r. h_filename r = fname \<and> h_category r = cat) (download_history db)"

definition is_already_downloaded :: "database \<Rightarrow> pystr \<Rightarrow> pystr \<Rightarrow> bool" where
  "is_already_downloaded db fname cat = (rows_with_key db fname cat \<noteq> [])"

text \<open>
  A thread is granted the write lock when no connection holds it or its own connection
  does; \<open>commit\<close> gives the lock back.
\<close>

definition lock_granted :: "thread \<Rightarrow> database \<Rightarrow> bool" where
  "lock_granted t db = (write_lock db = Unlocked \<or> write_lock db = Held t)"

definition commit :: "thread \<Rightarrow> database \<Rightarrow> database" where
  "commit t db = (if write_lock db = Held t then db\<lparr>write_lock := Unlocked\<rparr> else db)"

text \<open>
  The garbage collector has run or has not: when it has, the connections of the threads
  that have ended are closed and an orphaned lock is gone.
\<close>

definition free_orphaned :: "bool \<Rightarrow> database \<Rightarrow> database" where
  "free_orphaned collected db =
     (if collected \<and> write_lock db = Orphaned then db\<lparr>write_lock := Unlocked\<rparr> else db)"

text \<open>
  The \<open>INSERT INTO download_history\<close> statement, executed by thread \<open>t\<close>. Without the
  lock it raises \<open>OperationalError\<close>. With the lock, \<open>UNIQUE(filename, category)\<close> makes
  it raise \<open>IntegrityError\<close> when a row with the key is there, and the row is added
  otherwise; either way the connection now holds the lock. \<open>now\<close> is
  \<open>CURRENT_TIMESTAMP\<close>. The result is the exception raised, if any, and the database.
\<close>

definition insert_download_history ::
  "thread \<Rightarrow> nat \<Rightarrow> pystr \<Rightarrow> pystr \<Rightarrow> pystr \<Rightarrow> database \<Rightarrow> exn option \<times> database" where
  "insert_download_history t now fname cat u db =
     (if \<not> lock_granted t db then (Some OperationalError, db)
      else if rows_with_key db fname cat \<noteq> [] then (Some IntegrityError, db\<lparr>write_lock := Held t\<rparr>)
      else (None,
            db\<lparr>download_history := download_history db @
                  [\<lparr>h_id = Suc (history_seq db), h_filename = fname, h_category = cat,
                    h_url = u, h_download_date = now\<rparr>],
               history_seq := Suc (history_seq db),
               write_lock := Held t\<rparr>))"

text \<open>
  \<open>add_download_record\<close>, called on thread \<open>t\<close>: the insert and the commit under \<open>try\<close>,
  with \<open>except sqlite3.IntegrityError: pass\<close>. The swallowed \<open>IntegrityError\<close> skips the
  commit, and nothing rolls the transaction back: the call returns with the lock held.
  \<open>OperationalError\<close> is not caught.
\<close>

definition add_download_record ::
  "thread \<Rightarrow> nat \<Rightarrow> pystr \<Rightarrow> pystr \<Rightarrow> pystr \<Rightarrow> database \<Rightarrow> exn option \<times> database" where
  "add_download_record t now fname cat u db =
     (case insert_download_history t now fname cat u db of
        (None, db') \<Rightarrow> (None, commit t db')
      | (Some e, db') \<Rightarrow> (if e = IntegrityError then (None, db') else (Some e, db')))"



text \<open>
  \<open>sync_clients\<close>, called on thread \<open>t\<close>. The list comprehension reads \<open>client['id']\<close>
  and \<open>client['name']\<close> of every element; \<open>executemany\<close> then binds and executes each
  pair. An integer id with a string name is bound as it is. A \<open>None\<close> name breaks
  \<open>NOT NULL\<close> when the statement runs; the other shapes are taken as refused by the
  binding, before the statement runs (the catalog sends integer ids and string names).
  \<open>INSERT OR REPLACE\<close> removes the row that has the id and adds the new one. A
  statement that runs needs the write lock and keeps it. The rows are committed
  after the last statement; when a statement raises nothing is committed, and the rows
  of the statements before it stay in the open transaction of the thread.
\<close>

fun client_tuples :: "json list \<Rightarrow> exn + (json \<times> json) list" where
  "client_tuples [] = Inr []"
| "client_tuples (c # cs) =
     (case py_getitem c (lit ''id'') of
        Inl e \<Rightarrow> Inl e
      | Inr i \<Rightarrow>
         (case py_getitem c (lit ''name'') of
            Inl e \<Rightarrow> Inl e
          | Inr n \<Rightarrow>
             (case client_tuples cs of
                Inl e \<Rightarrow> Inl e
              | Inr ts \<Rightarrow> Inr ((i, n) # ts))))"

fun bind_client :: "json \<times> json \<Rightarrow> exn + (int \<times> pystr)" where
  "bind_client (JInt i, JStr n) = Inr (i, n)"
| "bind_client (_, JNull) = Inl IntegrityError"
| "bind_client _ = Inl SqliteError"

definition insert_or_replace_client :: "int \<times> pystr \<Rightarrow> (int \<times> pystr) list \<Rightarrow> (int \<times> pystr) list" where
  "insert_or_replace_client row tab = filter (\<lambda>r. fst r \<noteq> fst row) tab @ [row]"

fun executemany_clients ::
  "thread \<Rightarrow> (json \<times> json) list \<Rightarrow> (int \<times> pystr) list \<Rightarrow> database \<Rightarrow>
   (exn + (int \<times> pystr) list) \<times> database" where
  "executemany_clients t [] tab db = (Inr tab, db)"
| "executemany_clients t (x # xs) tab db =
     (case bind_client x of
        Inl e \<Rightarrow>
          (if e \<noteq> IntegrityError then (Inl e, db)
           else if lock_granted t db then (Inl IntegrityError, db\<lparr>write_lock := Held t\<rparr>)
           else (Inl OperationalError, db))
      | Inr row \<Rightarrow>
          (if lock_granted t db
           then executemany_clients t xs (insert_or_replace_client row tab)
                  (db\<lparr>write_lock := Held t\<rparr>)
           else (Inl OperationalError, db)))"

definition sync_clients :: "thread \<Rightarrow> json \<Rightarrow> database \<Rightarrow> exn option \<times> database" where
  "sync_clients t clients_data db =
     (if \<not> truthy clients_data then (None, db)
      else case py_iter clients_data of
        Inl e \<Rightarrow> (Some e, db)
      | Inr cs \<Rightarrow>
         (case client_tuples cs of
            Inl e \<Rightarrow> (Some e, db)
          | Inr ts \<Rightarrow>
             (case executemany_clients t ts (clients db) db of
                (Inl e, db') \<Rightarrow> (Some e, db')
              | (Inr tab, db') \<Rightarrow> (None, commit t (db'\<lparr>clients := tab\<rparr>)))))"

subsection \<open>What a call of \<open>add_download_record\<close> does\<close>





text \<open>
  Claim C1. The claim does not hold of the code. Three worker threads record images
  in a store that is new. The first call adds the row of \<open>a.jpg\<close>. The second call, on
  another thread and with the same key, meets the \<open>IntegrityError\<close>, swallows it and
  returns, and its connection keeps the write lock. From then on every call on a
  third thread raises \<open>OperationalError\<close> to its caller: the call with the same key,
  which the claim says does not raise, and the call with the new key \<open>b.jpg\<close>, after
  which the store has no row for \<open>b.jpg\<close>, where the claim says it has one. When the
  calls are all made on one thread they all return, and the store has one row for each
  key and no lock.
\<close>

definition store_after_first :: database where
  "store_after_first =
     snd (add_download_record (Pool_thread 0) 5 (lit ''a.jpg'') (lit ''Foto'') (lit ''u'')
            (create_tables None))"

definition store_after_duplicate :: "thread \<Rightarrow> database" where
  "store_after_duplicate t =
     snd (add_download_record t 6 (lit ''a.jpg'') (lit ''Foto'') (lit ''u'') store_after_first)"

theorem add_download_record_raises_when_locked:
  "add_download_record (Pool_thread 0) 5 (lit ''a.jpg'') (lit ''Foto'') (lit ''u'')
     (create_tables None) =
     (None,
      \<lparr>download_history =
         [\<lparr>h_id = 1, h_filename = lit ''a.jpg'', h_category = lit ''Foto'', h_url = lit ''u'',
           h_download_date = 5\<rparr>],
       history_seq = 1, clients = [], write_lock = Unlocked\<rparr>) \<and>
   add_download_record (Pool_thread 1) 6 (lit ''a.jpg'') (lit ''Foto'') (lit ''u'')
     store_after_first =
     (None, store_after_first\<lparr>write_lock := Held (Pool_thread 1)\<rparr>) \<and>
   add_download_record (Pool_thread 2) 7 (lit ''a.jpg'') (lit ''Foto'') (lit ''u'')
     (store_after_duplicate (Pool_thread 1)) =
     (Some OperationalError, store_after_duplicate (Pool_thread 1)) \<and>
   add_download_record (Pool_thread 2) 8 (lit ''b.jpg'') (lit ''Foto'') (lit ''v'')
     (store_after_duplicate (Pool_thread 1)) =
     (Some OperationalError, store_after_duplicate (Pool_thread 1)) \<and>
   rows_with_key (store_after_duplicate (Pool_thread 1)) (lit ''b.jpg'') (lit ''Foto'') = [] \<and>
   length (rows_with_key (store_after_duplicate (Pool_thread 1)) (lit ''a.jpg'') (lit ''Foto''))
     = 1 \<and>
   fst (add_download_record (Pool_thread 0) 7 (lit ''a.jpg'') (lit ''Foto'') (lit ''u'')
          (store_after_duplicate (Pool_thread 0))) = None \<and>
   add_download_record (Pool_thread 0) 8 (lit ''b.jpg'') (lit ''Foto'') (lit ''v'')
     (store_after_duplicate (Pool_thread 0)) =
     (None,
      \<lparr>download_history =
         [\<lparr>h_id = 1, h_filename = lit ''a.jpg'', h_category = lit ''Foto'', h_url = lit ''u'',
           h_download_date = 5\<rparr>,
          \<lparr>h_id = 2, h_filename = lit ''b.jpg'', h_category = lit ''Foto'', h_url = lit ''v'',
           h_download_date = 8\<rparr>],
       history_seq = 2, clients = [], write_lock = Unlocked\<rparr>)"
  by (simp add: store_after_duplicate_def store_after_first_def add_download_record_def
      insert_download_history_def lock_granted_def commit_def rows_with_key_def
      create_tables_def lit_def)


section \<open>Library functions\<close>

text \<open>
  A calendar date, as \<open>datetime.date\<close> holds it, with the comparison of the library:
  by year, then month, then day.
\<close>

record date =
  d_year :: nat
  d_month :: nat
  d_day :: nat

definition date_le :: "date \<Rightarrow> date \<Rightarrow> bool" where
  "date_le a b =
     (d_year a < d_year b \<or>
      (d_year a = d_year b \<and>
       (d_month a < d_month b \<or> (d_month a = d_month b \<and> d_day a \<le> d_day b))))"

text \<open>
  What the program takes from Python's library and does not define itself. The Unicode
  tables behind \<open>str.isalnum\<close> and \<open>str.isspace\<close> (by code point), \<open>os.path.join\<close> (its
  first argument and the rest), \<open>os.path.splitext(urlparse(u).path)[1]\<close>, the text of
  a float or a container in an f-string, and \<open>datetime.strptime(s, '%Y-%m-%d').date()\<close>
  (\<open>None\<close> where it raises \<open>ValueError\<close>) are parameters of the model: every theorem
  holds for each choice of them.
\<close>

record pylib =
  char_isalnum :: "codepoint \<Rightarrow> bool"
  char_isspace :: "codepoint \<Rightarrow> bool"
  os_path_join :: "pystr \<Rightarrow> pystr list \<Rightarrow> pystr"
  url_extension :: "pystr \<Rightarrow> exn + pystr"
  py_repr :: "json \<Rightarrow> pystr"
  strptime_ymd :: "pystr \<Rightarrow> date option"

text \<open>\<open>s.isalnum()\<close>: the string is not empty and every character is alphanumeric.\<close>

definition str_isalnum :: "pylib \<Rightarrow> pystr \<Rightarrow> bool" where
  "str_isalnum lib s = (s \<noteq> [] \<and> list_all (char_isalnum lib) s)"

text \<open>\<open>s.rstrip()\<close>: the string without its trailing whitespace.\<close>

definition rstrip :: "pylib \<Rightarrow> pystr \<Rightarrow> pystr" where
  "rstrip lib s = rev (dropWhile (char_isspace lib) (rev s))"

text \<open>A value inside an f-string: \<open>format(v, '')\<close>, which is \<open>str(v)\<close>.\<close>

fun format_value :: "pylib \<Rightarrow> json \<Rightarrow> pystr" where
  "format_value lib (JStr s) = s"
| "format_value lib (JInt i) = str_int i"
| "format_value lib JNull = lit ''None''"
| "format_value lib (JBool b) = (if b then lit ''True'' else lit ''False'')"
| "format_value lib v = py_repr lib v"

section \<open>Sanitizing a report (src/api/client.py, \<open>_sanitize_report_data\<close>)\<close>

definition list_keys :: "pystr list" where
  "list_keys = [lit ''report_detail_feedbacks'', lit ''report_detail_treatments'',
                lit ''report_detail_chemicals'', lit ''report_detail_type_works'',
                lit ''uploaded_files'']"

text \<open>\<open>isinstance(v, list)\<close>.\<close>

fun is_list :: "json \<Rightarrow> bool" where
  "is_list (JList xs) = True"
| "is_list _ = False"

text \<open>
  \<open>report[key] = v\<close> keeps the entry's place when the key is there and appends it
  otherwise, which is \<open>AList.update\<close>. The loop over \<open>list_keys\<close> works on the dict the
  caller passed; \<open>report.get\<close> on a value that is not a dict raises.
\<close>

fun sanitize_keys :: "pystr list \<Rightarrow> pydict \<Rightarrow> pydict" where
  "sanitize_keys [] report = report"
| "sanitize_keys (key # keys) report =
     sanitize_keys keys
       (if \<not> is_list (dict_get report key JNull) then AList.update key (JList []) report
        else report)"

fun sanitize_report_data :: "json \<Rightarrow> exn + json" where
  "sanitize_report_data (JObj report) = Inr (JObj (sanitize_keys list_keys report))"
| "sanitize_report_data _ = Inl AttributeError"

lemma lit_eq_iff [simp]: "lit a = lit b \<longleftrightarrow> a = b"
proof -
  have "inj (of_char :: char \<Rightarrow> nat)"
    by (rule injI) simp
  then show ?thesis
    unfolding lit_def by simp
qed

lemma map_of_sanitize_keys:
  "map_of (sanitize_keys keys report) k =
     (if k \<in> set keys \<and> \<not> is_list (dict_get report k JNull) then Some (JList [])
      else map_of report k)"
proof (induction keys arbitrary: report)
  case Nil
  then show ?case by simp
next
  case (Cons key keys)
  show ?case
    by (auto simp: Cons.IH dict_get_def update_conv')
qed

lemma sanitize_keys_id:
  "(\<And>k. k \<in> set keys \<Longrightarrow> is_list (dict_get report k JNull)) \<Longrightarrow> sanitize_keys keys report = report"
  by (induction keys arbitrary: report) auto

lemma is_list_iff: "is_list v \<longleftrightarrow> (\<exists>xs. v = JList xs)"
  by (cases v) auto

text \<open>
  Claim C8. After sanitization each of the five list keys of a report is bound to a
  list; a key that was absent, or bound to \<open>None\<close> or to any value that is not a list,
  is bound to the empty list. The call returns for every dict.
\<close>

theorem sanitize_report_data_lists:
  "\<exists>out. sanitize_report_data (JObj report) = Inr (JObj out) \<and>
     (\<forall>k \<in> set list_keys.
        is_list (dict_get out k JNull) \<and>
        (\<not> is_list (dict_get report k JNull) \<longrightarrow> map_of out k = Some (JList [])))"
  by (auto simp: map_of_sanitize_keys dict_get_def)

theorem sanitize_report_data_lists_witness:
  "\<exists>out. sanitize_report_data
      (JObj [(lit ''schedule_id'', JInt 7), (lit ''uploaded_files'', JNull),
             (lit ''report_detail_chemicals'', JStr (lit ''x''))]) = Inr (JObj out) \<and>
     lit ''uploaded_files'' \<in> set list_keys \<and>
     is_list (dict_get out (lit ''uploaded_files'') JNull) \<and>
     map_of out (lit ''uploaded_files'') = Some (JList [])"
proof -
  let ?r = "[(lit ''schedule_id'', JInt 7), (lit ''uploaded_files'', JNull),
             (lit ''report_detail_chemicals'', JStr (lit ''x''))]"
  have mem: "lit ''uploaded_files'' \<in> set list_keys"
    by (simp add: list_keys_def)
  have bad: "\<not> is_list (dict_get ?r (lit ''uploaded_files'') JNull)"
    by (simp add: dict_get_def)
  from sanitize_report_data_lists[of ?r] obtain out where
    o: "sanitize_report_data (JObj ?r) = Inr (JObj out)" and
    a: "\<forall>k \<in> set list_keys.
        is_list (dict_get out k JNull) \<and>
        (\<not> is_list (dict_get ?r k JNull) \<longrightarrow> map_of out k = Some (JList []))"
    by blast
  from a mem bad have "is_list (dict_get out (lit ''uploaded_files'') JNull)"
    and "map_of out (lit ''uploaded_files'') = Some (JList [])"
    by blast+
  with o mem show ?thesis by blast
qed

text \<open>
  Claim C9. Sanitization changes nothing else: a key that is not one of the five keeps
  its binding (or stays absent), a list key that is bound to a list keeps that list, and
  a report whose five list keys are all bound to lists is returned as it was.
\<close>

theorem sanitize_report_data_frame:
  "\<exists>out. sanitize_report_data (JObj report) = Inr (JObj out) \<and>
     (\<forall>k. k \<notin> set list_keys \<longrightarrow> map_of out k = map_of report k) \<and>
     (\<forall>k xs. map_of report k = Some (JList xs) \<longrightarrow> map_of out k = Some (JList xs)) \<and>
     ((\<forall>k \<in> set list_keys. is_list (dict_get report k JNull)) \<longrightarrow> out = report)"
  by (auto simp: map_of_sanitize_keys dict_get_def intro!: sanitize_keys_id)



theorem sanitize_report_data_frame_witness:
  "(\<exists>out. sanitize_report_data
      (JObj [(lit ''schedule_id'', JInt 7), (lit ''uploaded_files'', JList [JInt 1]),
             (lit ''report_detail_chemicals'', JStr (lit ''x''))]) = Inr (JObj out) \<and>
     lit ''schedule_id'' \<notin> set list_keys \<and>
     map_of out (lit ''schedule_id'') = Some (JInt 7) \<and>
     map_of out (lit ''uploaded_files'') = Some (JList [JInt 1])) \<and>
   list_all (\<lambda>k. is_list (dict_get
       [(lit ''schedule_id'', JInt 7), (lit ''report_detail_feedbacks'', JList []),
        (lit ''report_detail_treatments'', JList [JInt 2]),
        (lit ''report_detail_chemicals'', JList []),
        (lit ''report_detail_type_works'', JList []),
        (lit ''uploaded_files'', JList [JInt 1])] k JNull)) list_keys \<and>
   sanitize_report_data
     (JObj [(lit ''schedule_id'', JInt 7), (lit ''report_detail_feedbacks'', JList []),
        (lit ''report_detail_treatments'', JList [JInt 2]),
        (lit ''report_detail_chemicals'', JList []),
        (lit ''report_detail_type_works'', JList []),
        (lit ''uploaded_files'', JList [JInt 1])]) =
     Inr (JObj [(lit ''schedule_id'', JInt 7), (lit ''report_detail_feedbacks'', JList []),
        (lit ''report_detail_treatments'', JList [JInt 2]),
        (lit ''report_detail_chemicals'', JList []),
        (lit ''report_detail_type_works'', JList []),
        (lit ''uploaded_files'', JList [JInt 1])])"
proof -
  let ?r = "[(lit ''schedule_id'', JInt 7), (lit ''uploaded_files'', JList [JInt 1]),
             (lit ''report_detail_chemicals'', JStr (lit ''x''))]"
  let ?r2 = "[(lit ''schedule_id'', JInt 7), (lit ''report_detail_feedbacks'', JList []),
        (lit ''report_detail_treatments'', JList [JInt 2]),
        (lit ''report_detail_chemicals'', JList []),
        (lit ''report_detail_type_works'', JList []),
        (lit ''uploaded_files'', JList [JInt 1])]"
  have nmem: "lit ''schedule_id'' \<notin> set list_keys"
    by (simp add: list_keys_def)
  have m1: "map_of ?r (lit ''schedule_id'') = Some (JInt 7)"
    by simp
  have m2: "map_of ?r (lit ''uploaded_files'') = Some (JList [JInt 1])"
    by simp
  from sanitize_report_data_frame[of ?r] obtain out where
    o: "sanitize_report_data (JObj ?r) = Inr (JObj out)" and
    a: "\<forall>k. k \<notin> set list_keys \<longrightarrow> map_of out k = map_of ?r k" and
    b: "\<forall>k xs. map_of ?r k = Some (JList xs) \<longrightarrow> map_of out k = Some (JList xs)"
    by blast
  from a nmem m1 have "map_of out (lit ''schedule_id'') = Some (JInt 7)"
    by metis
  moreover from b m2 have "map_of out (lit ''uploaded_files'') = Some (JList [JInt 1])"
    by blast
  ultimately have first: "\<exists>out. sanitize_report_data (JObj ?r) = Inr (JObj out) \<and>
     lit ''schedule_id'' \<notin> set list_keys \<and>
     map_of out (lit ''schedule_id'') = Some (JInt 7) \<and>
     map_of out (lit ''uploaded_files'') = Some (JList [JInt 1])"
    using o nmem by blast
  have lists: "list_all (\<lambda>k. is_list (dict_get ?r2 k JNull)) list_keys"
    by (simp add: list_keys_def dict_get_def)
  then have "\<forall>k \<in> set list_keys. is_list (dict_get ?r2 k JNull)"
    by (simp add: list_all_iff)
  with sanitize_report_data_frame[of ?r2]
  have "sanitize_report_data (JObj ?r2) = Inr (JObj ?r2)"
    by auto
  with first lists show ?thesis by blast
qed

section \<open>The date window (src/api/client.py, \<open>_filter_reports_by_date\<close>)\<close>

text \<open>
  \<open>datetime.strptime(v, '%Y-%m-%d').date()\<close>: \<open>TypeError\<close> when the argument is not a
  string, \<open>ValueError\<close> when the string is not a date of that format. The result is a
  date: whatever time of day \<open>strptime\<close> attached is dropped by \<open>.date()\<close>.
\<close>

fun strptime_date :: "pylib \<Rightarrow> json \<Rightarrow> exn + date" where
  "strptime_date lib (JStr s) =
     (case strptime_ymd lib s of None \<Rightarrow> Inl ValueError | Some d \<Rightarrow> Inr d)"
| "strptime_date lib _ = Inl TypeError"

text \<open>The expression under \<open>try\<close>: \<open>report.get('date_work')\<close>, parsed.\<close>

definition report_date :: "pylib \<Rightarrow> json \<Rightarrow> exn + date" where
  "report_date lib report =
     (case py_get report (lit ''date_work'') JNull of
        Inl e \<Rightarrow> Inl e
      | Inr v \<Rightarrow> strptime_date lib v)"

text \<open>
  The loop. \<open>except (ValueError, TypeError): continue\<close> skips the record; any other
  exception leaves the function.
\<close>

fun filter_loop :: "pylib \<Rightarrow> date \<Rightarrow> date \<Rightarrow> json list \<Rightarrow> json list \<Rightarrow> exn + json list" where
  "filter_loop lib start_date end_date [] filtered = Inr filtered"
| "filter_loop lib start_date end_date (report # reports) filtered =
     (case report_date lib report of
        Inl e \<Rightarrow>
          (if e = ValueError \<or> e = TypeError
           then filter_loop lib start_date end_date reports filtered
           else Inl e)
      | Inr report_day \<Rightarrow>
          (if date_le start_date report_day \<and> date_le report_day end_date
           then filter_loop lib start_date end_date reports (filtered @ [report])
           else filter_loop lib start_date end_date reports filtered))"

definition filter_reports_by_date :: "pylib \<Rightarrow> json \<Rightarrow> pystr \<Rightarrow> pystr \<Rightarrow> exn + json list" where
  "filter_reports_by_date lib reports start_date_str end_date_str =
     (case strptime_ymd lib start_date_str of
        None \<Rightarrow> Inl ValueError
      | Some start_date \<Rightarrow>
         (case strptime_ymd lib end_date_str of
            None \<Rightarrow> Inl ValueError
          | Some end_date \<Rightarrow>
             (case py_iter reports of
                Inl e \<Rightarrow> Inl e
              | Inr rs \<Rightarrow> filter_loop lib start_date end_date rs [])))"

text \<open>
  The window in the words of the specification: a record is in the window when its
  work date parses to a day \<open>d\<close> with \<open>start \<le> d \<le> end\<close>. A record of the catalog is a
  dict; its date is bad when \<open>date_work\<close> is missing, \<open>None\<close>, not a string, or a string
  that does not parse.
\<close>

definition in_window :: "pylib \<Rightarrow> date \<Rightarrow> date \<Rightarrow> json \<Rightarrow> bool" where
  "in_window lib start_date end_date report =
     (case report_date lib report of
        Inl e \<Rightarrow> False
      | Inr d \<Rightarrow> date_le start_date d \<and> date_le d end_date)"

fun is_dict :: "json \<Rightarrow> bool" where
  "is_dict (JObj d) = True"
| "is_dict _ = False"

definition bad_date :: "pylib \<Rightarrow> pydict \<Rightarrow> bool" where
  "bad_date lib d =
     (case map_of d (lit ''date_work'') of
        None \<Rightarrow> True
      | Some (JStr s) \<Rightarrow> strptime_ymd lib s = None
      | Some v \<Rightarrow> True)"

text \<open>The day after a date and the day before it, by the Gregorian calendar.\<close>

definition is_leap :: "nat \<Rightarrow> bool" where
  "is_leap y = (y mod 4 = 0 \<and> (y mod 100 \<noteq> 0 \<or> y mod 400 = 0))"

definition days_in_month :: "nat \<Rightarrow> nat \<Rightarrow> nat" where
  "days_in_month y m =
     (if m = 2 then (if is_leap y then 29 else 28)
      else if m = 4 \<or> m = 6 \<or> m = 9 \<or> m = 11 then 30 else 31)"

definition day_after :: "date \<Rightarrow> date" where
  "day_after d =
     (if d_day d < days_in_month (d_year d) (d_month d) then d\<lparr>d_day := d_day d + 1\<rparr>
      else if d_month d < 12 then \<lparr>d_year = d_year d, d_month = d_month d + 1, d_day = 1\<rparr>
      else \<lparr>d_year = d_year d + 1, d_month = 1, d_day = 1\<rparr>)"

definition day_before :: "date \<Rightarrow> date option" where
  "day_before d =
     (if 1 < d_day d then Some (d\<lparr>d_day := d_day d - 1\<rparr>)
      else if 1 < d_month d
        then Some \<lparr>d_year = d_year d, d_month = d_month d - 1,
                   d_day = days_in_month (d_year d) (d_month d - 1)\<rparr>
      else if 1 < d_year d then Some \<lparr>d_year = d_year d - 1, d_month = 12, d_day = 31\<rparr>
      else None)"

subsection \<open>An instance of the library on ASCII text\<close>

text \<open>
  For examples: the library functions on ASCII input. \<open>ascii_strptime_ymd\<close> follows the
  pattern \<open>strptime\<close> builds for \<open>%Y-%m-%d\<close> (four digits; a month \<open>1[0-2]|0[1-9]|[1-9]\<close>;
  a day \<open>3[01]|[12]\d|0[1-9]|[1-9]| [1-9]\<close>; nothing may remain) and the range checks of
  \<open>datetime\<close>. \<open>posix_join\<close> is \<open>posixpath.join\<close>.
\<close>

definition digit_val :: "codepoint \<Rightarrow> nat option" where
  "digit_val c = (if 48 \<le> c \<and> c \<le> 57 then Some (c - 48) else None)"

definition parse_year :: "pystr \<Rightarrow> (nat \<times> pystr) option" where
  "parse_year s =
     (case s of
        a # b # c # d # rest \<Rightarrow>
          (case (digit_val a, digit_val b, digit_val c, digit_val d) of
             (Some x, Some y, Some z, Some w) \<Rightarrow> Some (1000 * x + 100 * y + 10 * z + w, rest)
           | _ \<Rightarrow> None)
      | _ \<Rightarrow> None)"

definition parse_month :: "pystr \<Rightarrow> (nat \<times> pystr) option" where
  "parse_month s =
     (case s of
        [] \<Rightarrow> None
      | [a] \<Rightarrow> (if 49 \<le> a \<and> a \<le> 57 then Some (a - 48, []) else None)
      | a # b # rest \<Rightarrow>
          (if a = 49 \<and> 48 \<le> b \<and> b \<le> 50 then Some (10 + (b - 48), rest)
           else if a = 48 \<and> 49 \<le> b \<and> b \<le> 57 then Some (b - 48, rest)
           else if 49 \<le> a \<and> a \<le> 57 then Some (a - 48, b # rest)
           else None))"

definition parse_day :: "pystr \<Rightarrow> (nat \<times> pystr) option" where
  "parse_day s =
     (case s of
        [] \<Rightarrow> None
      | [a] \<Rightarrow> (if 49 \<le> a \<and> a \<le> 57 then Some (a - 48, []) else None)
      | a # b # rest \<Rightarrow>
          (if a = 51 \<and> 48 \<le> b \<and> b \<le> 49 then Some (30 + (b - 48), rest)
           else if 49 \<le> a \<and> a \<le> 50 \<and> 48 \<le> b \<and> b \<le> 57
             then Some (10 * (a - 48) + (b - 48), rest)
           else if a = 48 \<and> 49 \<le> b \<and> b \<le> 57 then Some (b - 48, rest)
           else if 49 \<le> a \<and> a \<le> 57 then Some (a - 48, b # rest)
           else if a = 32 \<and> 49 \<le> b \<and> b \<le> 57 then Some (b - 48, rest)
           else None))"

definition ascii_strptime_ymd :: "pystr \<Rightarrow> date option" where
  "ascii_strptime_ymd s =
     (case parse_year s of
        None \<Rightarrow> None
      | Some (y, s1) \<Rightarrow>
         (case s1 of
            [] \<Rightarrow> None
          | dash1 # s2 \<Rightarrow>
             (if dash1 \<noteq> 45 then None
              else case parse_month s2 of
                None \<Rightarrow> None
              | Some (m, s3) \<Rightarrow>
                 (case s3 of
                    [] \<Rightarrow> None
                  | dash2 # s4 \<Rightarrow>
                     (if dash2 \<noteq> 45 then None
                      else case parse_day s4 of
                        None \<Rightarrow> None
                      | Some (d, s5) \<Rightarrow>
                         (if s5 \<noteq> [] then None
                          else if y < 1 then None
                          else if days_in_month y m < d then None
                          else Some \<lparr>d_year = y, d_month = m, d_day = d\<rparr>))))))"

fun posix_join :: "pystr \<Rightarrow> pystr list \<Rightarrow> pystr" where
  "posix_join path [] = path"
| "posix_join path (b # bs) =
     (if b \<noteq> [] \<and> hd b = 47 then posix_join b bs
      else if path = [] \<or> last path = 47 then posix_join (path @ b) bs
      else posix_join (path @ [47] @ b) bs)"

definition ascii_isalnum :: "codepoint \<Rightarrow> bool" where
  "ascii_isalnum c = ((48 \<le> c \<and> c \<le> 57) \<or> (65 \<le> c \<and> c \<le> 90) \<or> (97 \<le> c \<and> c \<le> 122))"

definition ascii_isspace :: "codepoint \<Rightarrow> bool" where
  "ascii_isspace c = ((9 \<le> c \<and> c \<le> 13) \<or> (28 \<le> c \<and> c \<le> 32))"

text \<open>
  The extension of a plain path: from the last dot of the last component, when a
  character other than a dot stands before it in that component.
\<close>

definition plain_extension :: "pystr \<Rightarrow> pystr" where
  "plain_extension u =
     (let comp = rev (takeWhile (\<lambda>c. c \<noteq> 47) (rev u));
          ext = rev (takeWhile (\<lambda>c. c \<noteq> 46) (rev comp));
          stem = take (length comp - length ext - 1) comp
      in if length ext < length comp \<and> filter (\<lambda>c. c \<noteq> 46) stem \<noteq> [] then 46 # ext else [])"

definition ascii_lib :: pylib where
  "ascii_lib =
     \<lparr>char_isalnum = ascii_isalnum, char_isspace = ascii_isspace,
      os_path_join = posix_join, url_extension = (\<lambda>u. Inr (plain_extension u)),
      py_repr = (\<lambda>v. lit ''?''), strptime_ymd = ascii_strptime_ymd\<rparr>"




subsection \<open>The filter keeps the window\<close>

lemma date_le_refl: "date_le d d"
  by (simp add: date_le_def)

lemma day_after_later: "\<not> date_le (day_after d) d"
  by (simp add: day_after_def date_le_def)

lemma day_before_earlier:
  assumes "day_before d = Some b"
  shows "\<not> date_le d b"
proof (cases "1 < d_day d")
  case True
  with assms have "b = d\<lparr>d_day := d_day d - 1\<rparr>"
    by (simp add: day_before_def)
  with True show ?thesis by (simp add: date_le_def)
next
  case day1: False
  show ?thesis
  proof (cases "1 < d_month d")
    case True
    with assms day1 have "d_year b = d_year d \<and> d_month b = d_month d - 1"
      by (auto simp: day_before_def)
    with True show ?thesis by (auto simp: date_le_def)
  next
    case month1: False
    show ?thesis
    proof (cases "1 < d_year d")
      case True
      with assms day1 month1 have "d_year b = d_year d - 1"
        by (auto simp: day_before_def)
      with True show ?thesis by (auto simp: date_le_def)
    next
      case False
      with assms day1 month1 show ?thesis by (simp add: day_before_def)
    qed
  qed
qed

lemma report_date_dict:
  "report_date lib (JObj d) = strptime_date lib (dict_get d (lit ''date_work'') JNull)"
  by (simp add: report_date_def)

lemma strptime_date_cases:
  "strptime_date lib v = Inl ValueError \<or> strptime_date lib v = Inl TypeError \<or>
   (\<exists>d. strptime_date lib v = Inr d)"
  by (cases v) (auto split: option.splits)

lemma report_date_not_dict: "\<not> is_dict r \<Longrightarrow> report_date lib r = Inl AttributeError"
  by (cases r) (auto simp: report_date_def)

lemma filter_loop_dicts:
  "list_all is_dict rs \<Longrightarrow>
   filter_loop lib sd ed rs acc = Inr (acc @ filter (in_window lib sd ed) rs)"
proof (induction rs arbitrary: acc)
  case Nil
  then show ?case by simp
next
  case (Cons r rs)
  then obtain d where r: "r = JObj d" by (cases r) auto
  from Cons.prems have rest: "list_all is_dict rs" by simp
  from strptime_date_cases[of lib "dict_get d (lit ''date_work'') JNull"]
  show ?case
    by (auto simp: r report_date_dict in_window_def Cons.IH[OF rest])
qed

lemma filter_loop_result:
  "filter_loop lib sd ed rs acc = Inr out \<Longrightarrow> out = acc @ filter (in_window lib sd ed) rs"
proof (induction rs arbitrary: acc)
  case Nil
  then show ?case by simp
next
  case (Cons r rs)
  show ?case
  proof (cases "report_date lib r")
    case (Inl e)
    with Cons.prems have "filter_loop lib sd ed rs acc = Inr out"
      by (simp split: if_splits)
    then have "out = acc @ filter (in_window lib sd ed) rs" by (rule Cons.IH)
    moreover from Inl have "\<not> in_window lib sd ed r" by (simp add: in_window_def)
    ultimately show ?thesis by simp
  next
    case (Inr d)
    show ?thesis
    proof (cases "date_le sd d \<and> date_le d ed")
      case True
      with Cons.prems Inr have "filter_loop lib sd ed rs (acc @ [r]) = Inr out" by simp
      then have "out = (acc @ [r]) @ filter (in_window lib sd ed) rs" by (rule Cons.IH)
      moreover from Inr True have "in_window lib sd ed r" by (simp add: in_window_def)
      ultimately show ?thesis by simp
    next
      case False
      with Cons.prems Inr have "filter_loop lib sd ed rs acc = Inr out" by auto
      then have "out = acc @ filter (in_window lib sd ed) rs" by (rule Cons.IH)
      moreover from Inr False have "\<not> in_window lib sd ed r" by (simp add: in_window_def)
      ultimately show ?thesis by simp
    qed
  qed
qed

lemma filter_loop_skip:
  "report_date lib bad = Inl ValueError \<or> report_date lib bad = Inl TypeError \<Longrightarrow>
   filter_loop lib sd ed (xs @ bad # ys) acc = filter_loop lib sd ed (xs @ ys) acc"
proof (induction xs arbitrary: acc)
  case Nil
  then show ?case by auto
next
  case (Cons x xs)
  then show ?case by (simp split: sum.splits)
qed

lemma bad_date_raises:
  "bad_date lib d \<Longrightarrow>
   report_date lib (JObj d) = Inl ValueError \<or> report_date lib (JObj d) = Inl TypeError"
  by (auto simp: bad_date_def report_date_dict dict_get_def split: option.splits json.splits)

lemma filter_reports_by_date_dicts:
  "strptime_ymd lib ss = Some sd \<Longrightarrow> strptime_ymd lib es = Some ed \<Longrightarrow> list_all is_dict rs \<Longrightarrow>
   filter_reports_by_date lib (JList rs) ss es = Inr (filter (in_window lib sd ed) rs)"
  by (simp add: filter_reports_by_date_def filter_loop_dicts)

text \<open>
  Claim C6. With a start and an end that parse, and records that are dicts, the filter
  returns exactly the records whose work date parses to a day \<open>d\<close> with
  \<open>start \<le> d \<le> end\<close>, in their order. The comparison is between calendar days, which
  carry no time of day. A record dated on \<open>start\<close> or on \<open>end\<close> is kept (when the window
  is not empty); a record dated the day after \<open>end\<close> or the day before \<open>start\<close> is not.
\<close>

theorem filter_reports_by_date_closed_interval:
  assumes "strptime_ymd lib ss = Some sd" and "strptime_ymd lib es = Some ed"
    and "list_all is_dict rs"
  shows "\<exists>out. filter_reports_by_date lib (JList rs) ss es = Inr out \<and>
           out = filter (in_window lib sd ed) rs \<and>
           (\<forall>r d. r \<in> set rs \<and> report_date lib r = Inr d \<longrightarrow>
                  (r \<in> set out \<longleftrightarrow> date_le sd d \<and> date_le d ed)) \<and>
           (\<forall>r. r \<in> set rs \<and> date_le sd ed \<and>
                  (report_date lib r = Inr sd \<or> report_date lib r = Inr ed) \<longrightarrow> r \<in> set out) \<and>
           (\<forall>r. report_date lib r = Inr (day_after ed) \<longrightarrow> r \<notin> set out) \<and>
           (\<forall>r b. day_before sd = Some b \<and> report_date lib r = Inr b \<longrightarrow> r \<notin> set out)"
proof -
  let ?out = "filter (in_window lib sd ed) rs"
  have 1: "filter_reports_by_date lib (JList rs) ss es = Inr ?out"
    using assms by (rule filter_reports_by_date_dicts)
  have 2: "\<forall>r d. r \<in> set rs \<and> report_date lib r = Inr d \<longrightarrow>
                  (r \<in> set ?out \<longleftrightarrow> date_le sd d \<and> date_le d ed)"
    by (simp add: in_window_def)
  have 3: "\<forall>r. r \<in> set rs \<and> date_le sd ed \<and>
                  (report_date lib r = Inr sd \<or> report_date lib r = Inr ed) \<longrightarrow> r \<in> set ?out"
    by (auto simp: in_window_def date_le_refl)
  have 4: "\<forall>r. report_date lib r = Inr (day_after ed) \<longrightarrow> r \<notin> set ?out"
    by (simp add: in_window_def day_after_later)
  have 5: "\<forall>r b. day_before sd = Some b \<and> report_date lib r = Inr b \<longrightarrow> r \<notin> set ?out"
    by (auto simp: in_window_def dest: day_before_earlier)
  show ?thesis
    by (rule exI[of _ ?out]) (intro conjI 1 2 3 4 5 refl)
qed

text \<open>
  Claim C7. A record whose \<open>date_work\<close> is missing, \<open>None\<close>, not a string or not a date
  is skipped without an exception: the filter gives the same result with the record as
  without it, the record is not in the result, and on a list of dicts the filter
  returns.
\<close>

theorem filter_reports_by_date_skips_bad_dates:
  assumes "strptime_ymd lib ss = Some sd" and "strptime_ymd lib es = Some ed"
    and "bad_date lib bad"
  shows "filter_reports_by_date lib (JList (xs @ JObj bad # ys)) ss es =
           filter_reports_by_date lib (JList (xs @ ys)) ss es \<and>
         (\<forall>out. filter_reports_by_date lib (JList (xs @ JObj bad # ys)) ss es = Inr out \<longrightarrow>
                JObj bad \<notin> set out) \<and>
         (list_all is_dict (xs @ ys) \<longrightarrow>
            filter_reports_by_date lib (JList (xs @ JObj bad # ys)) ss es =
              Inr (filter (in_window lib sd ed) (xs @ ys)))"
proof -
  from assms(3) have raises:
    "report_date lib (JObj bad) = Inl ValueError \<or> report_date lib (JObj bad) = Inl TypeError"
    by (rule bad_date_raises)
  then have skip: "filter_reports_by_date lib (JList (xs @ JObj bad # ys)) ss es =
           filter_reports_by_date lib (JList (xs @ ys)) ss es"
    using assms(1,2) by (simp add: filter_reports_by_date_def filter_loop_skip)
  from raises have nw: "\<not> in_window lib sd ed (JObj bad)"
    by (auto simp: in_window_def)
  have dicts: "filter_reports_by_date lib (JList (xs @ ys)) ss es =
              Inr (filter (in_window lib sd ed) (xs @ ys))" if "list_all is_dict (xs @ ys)"
    using assms(1,2) that by (rule filter_reports_by_date_dicts)
  have notin: "JObj bad \<notin> set out"
    if o: "filter_reports_by_date lib (JList (xs @ JObj bad # ys)) ss es = Inr out" for out
  proof -
    from o assms(1,2) have "filter_loop lib sd ed (xs @ JObj bad # ys) [] = Inr out"
      by (simp add: filter_reports_by_date_def)
    then have "out = [] @ filter (in_window lib sd ed) (xs @ JObj bad # ys)"
      by (rule filter_loop_result)
    with nw show ?thesis by simp
  qed
  have all: "\<forall>out. filter_reports_by_date lib (JList (xs @ JObj bad # ys)) ss es = Inr out \<longrightarrow>
                JObj bad \<notin> set out"
    using notin by blast
  have tot: "list_all is_dict (xs @ ys) \<longrightarrow>
            filter_reports_by_date lib (JList (xs @ JObj bad # ys)) ss es =
              Inr (filter (in_window lib sd ed) (xs @ ys))"
    using skip dicts by simp
  show ?thesis
    by (intro conjI skip all tot)
qed



subsection \<open>The filter on the scenario of the specification\<close>

lemma parse_march_1:
  "strptime_ymd ascii_lib (lit ''2024-03-01'') = Some \<lparr>d_year = 2024, d_month = 3, d_day = 1\<rparr>"
  by (simp add: ascii_lib_def ascii_strptime_ymd_def parse_year_def parse_month_def
      parse_day_def digit_val_def lit_def days_in_month_def)

lemma parse_march_14:
  "strptime_ymd ascii_lib (lit ''2024-03-14'') = Some \<lparr>d_year = 2024, d_month = 3, d_day = 14\<rparr>"
  by (simp add: ascii_lib_def ascii_strptime_ymd_def parse_year_def parse_month_def
      parse_day_def digit_val_def lit_def days_in_month_def)

lemma parse_march_15:
  "strptime_ymd ascii_lib (lit ''2024-03-15'') = Some \<lparr>d_year = 2024, d_month = 3, d_day = 15\<rparr>"
  by (simp add: ascii_lib_def ascii_strptime_ymd_def parse_year_def parse_month_def
      parse_day_def digit_val_def lit_def days_in_month_def)

lemma parse_march_16:
  "strptime_ymd ascii_lib (lit ''2024-03-16'') = Some \<lparr>d_year = 2024, d_month = 3, d_day = 16\<rparr>"
  by (simp add: ascii_lib_def ascii_strptime_ymd_def parse_year_def parse_month_def
      parse_day_def digit_val_def lit_def days_in_month_def)

lemma parse_with_time:
  "strptime_ymd ascii_lib (lit ''2024-03-15 10:00:00'') = None"
  by (simp add: ascii_lib_def ascii_strptime_ymd_def parse_year_def parse_month_def
      parse_day_def digit_val_def lit_def days_in_month_def)

lemma report_date_str:
  "report_date lib (JObj [(lit ''date_work'', JStr s)]) =
     (case strptime_ymd lib s of None \<Rightarrow> Inl ValueError | Some d \<Rightarrow> Inr d)"
  by (simp add: report_date_def dict_get_def)

lemma parse_feb_29:
  "strptime_ymd ascii_lib (lit ''2024-02-29'') = Some \<lparr>d_year = 2024, d_month = 2, d_day = 29\<rparr>"
  by (simp add: ascii_lib_def ascii_strptime_ymd_def parse_year_def parse_month_def
      parse_day_def digit_val_def lit_def days_in_month_def is_leap_def)

lemma day_after_march_15:
  "day_after \<lparr>d_year = 2024, d_month = 3, d_day = 15\<rparr> =
     \<lparr>d_year = 2024, d_month = 3, d_day = 16\<rparr>"
  by (simp add: day_after_def days_in_month_def)

lemma day_before_march_1:
  "day_before \<lparr>d_year = 2024, d_month = 3, d_day = 1\<rparr> =
     Some \<lparr>d_year = 2024, d_month = 2, d_day = 29\<rparr>"
  by (simp add: day_before_def days_in_month_def is_leap_def)

theorem filter_reports_by_date_closed_interval_witness:
  "strptime_ymd ascii_lib (lit ''2024-03-01'') = Some \<lparr>d_year = 2024, d_month = 3, d_day = 1\<rparr> \<and>
   strptime_ymd ascii_lib (lit ''2024-03-15'') = Some \<lparr>d_year = 2024, d_month = 3, d_day = 15\<rparr> \<and>
   list_all is_dict
     [JObj [(lit ''date_work'', JStr (lit ''2024-03-15''))],
      JObj [(lit ''date_work'', JStr (lit ''2024-03-16''))],
      JObj [(lit ''date_work'', JStr (lit ''2024-02-29''))],
      JObj [(lit ''date_work'', JStr (lit ''2024-03-01''))]] \<and>
   report_date ascii_lib (JObj [(lit ''date_work'', JStr (lit ''2024-03-16''))]) =
     Inr (day_after \<lparr>d_year = 2024, d_month = 3, d_day = 15\<rparr>) \<and>
   day_before \<lparr>d_year = 2024, d_month = 3, d_day = 1\<rparr> =
     Some \<lparr>d_year = 2024, d_month = 2, d_day = 29\<rparr> \<and>
   report_date ascii_lib (JObj [(lit ''date_work'', JStr (lit ''2024-02-29''))]) =
     Inr \<lparr>d_year = 2024, d_month = 2, d_day = 29\<rparr> \<and>
   filter_reports_by_date ascii_lib
     (JList [JObj [(lit ''date_work'', JStr (lit ''2024-03-15''))],
             JObj [(lit ''date_work'', JStr (lit ''2024-03-16''))],
             JObj [(lit ''date_work'', JStr (lit ''2024-02-29''))],
             JObj [(lit ''date_work'', JStr (lit ''2024-03-01''))]])
     (lit ''2024-03-01'') (lit ''2024-03-15'') =
     Inr [JObj [(lit ''date_work'', JStr (lit ''2024-03-15''))],
          JObj [(lit ''date_work'', JStr (lit ''2024-03-01''))]]"
proof -
  let ?r15 = "JObj [(lit ''date_work'', JStr (lit ''2024-03-15''))]"
  let ?r16 = "JObj [(lit ''date_work'', JStr (lit ''2024-03-16''))]"
  let ?r29 = "JObj [(lit ''date_work'', JStr (lit ''2024-02-29''))]"
  let ?r01 = "JObj [(lit ''date_work'', JStr (lit ''2024-03-01''))]"
  let ?rs = "[?r15, ?r16, ?r29, ?r01]"
  let ?sd = "\<lparr>d_year = 2024, d_month = 3, d_day = 1\<rparr>"
  let ?ed = "\<lparr>d_year = 2024, d_month = 3, d_day = 15\<rparr>"
  have dicts: "list_all is_dict ?rs" by simp
  have d15: "report_date ascii_lib ?r15 = Inr ?ed"
    and d16: "report_date ascii_lib ?r16 = Inr (day_after ?ed)"
    and d29: "report_date ascii_lib ?r29 = Inr \<lparr>d_year = 2024, d_month = 2, d_day = 29\<rparr>"
    and d01: "report_date ascii_lib ?r01 = Inr ?sd"
    by (simp_all add: report_date_str parse_march_1 parse_march_15 parse_march_16 parse_feb_29
        day_after_march_15)
  have le: "date_le ?sd ?ed" by (simp add: date_le_def)
  from filter_reports_by_date_closed_interval[OF parse_march_1 parse_march_15 dicts]
  obtain out where
    run: "filter_reports_by_date ascii_lib (JList ?rs) (lit ''2024-03-01'') (lit ''2024-03-15'') =
            Inr out"
    and out: "out = filter (in_window ascii_lib ?sd ?ed) ?rs"
    and edge: "\<forall>r. r \<in> set ?rs \<and> date_le ?sd ?ed \<and>
                  (report_date ascii_lib r = Inr ?sd \<or> report_date ascii_lib r = Inr ?ed) \<longrightarrow>
                  r \<in> set out"
    and after: "\<forall>r. report_date ascii_lib r = Inr (day_after ?ed) \<longrightarrow> r \<notin> set out"
    and before: "\<forall>r b. day_before ?sd = Some b \<and> report_date ascii_lib r = Inr b \<longrightarrow>
                  r \<notin> set out"
    by blast
  from edge le d15 have in15: "?r15 \<in> set out" by simp
  from edge le d01 have in01: "?r01 \<in> set out" by simp
  from after d16 have out16: "?r16 \<notin> set out" by blast
  from before day_before_march_1 d29 have out29: "?r29 \<notin> set out" by blast
  have mem: "r \<in> set out \<longleftrightarrow> r \<in> set ?rs \<and> in_window ascii_lib ?sd ?ed r" for r
    unfolding out by (simp only: set_filter mem_Collect_eq)
  have w15: "in_window ascii_lib ?sd ?ed ?r15" using in15 mem by blast
  have w01: "in_window ascii_lib ?sd ?ed ?r01" using in01 mem by blast
  have w16: "\<not> in_window ascii_lib ?sd ?ed ?r16" using out16 mem[of ?r16] by simp
  have w29: "\<not> in_window ascii_lib ?sd ?ed ?r29" using out29 mem[of ?r29] by simp
  from w15 w01 w16 w29
  have "out = [?r15, ?r01]"
    unfolding out by simp
  with run parse_march_1 parse_march_15 dicts d16 d29 day_before_march_1
  show ?thesis by simp
qed

theorem filter_reports_by_date_skips_bad_dates_witness:
  "strptime_ymd ascii_lib (lit ''2024-03-01'') = Some \<lparr>d_year = 2024, d_month = 3, d_day = 1\<rparr> \<and>
   strptime_ymd ascii_lib (lit ''2024-03-14'') = Some \<lparr>d_year = 2024, d_month = 3, d_day = 14\<rparr> \<and>
   bad_date ascii_lib [(lit ''date_work'', JStr (lit ''2024-03-15 10:00:00''))] \<and>
   list_all is_dict ([JObj [(lit ''date_work'', JStr (lit ''2024-03-15''))]] @
                     [JObj [(lit ''date_work'', JStr (lit ''2024-03-01''))]]) \<and>
   filter_reports_by_date ascii_lib
     (JList ([JObj [(lit ''date_work'', JStr (lit ''2024-03-15''))]] @
             JObj [(lit ''date_work'', JStr (lit ''2024-03-15 10:00:00''))] #
             [JObj [(lit ''date_work'', JStr (lit ''2024-03-01''))]]))
     (lit ''2024-03-01'') (lit ''2024-03-14'') =
     Inr [JObj [(lit ''date_work'', JStr (lit ''2024-03-01''))]]"
proof -
  let ?xs = "[JObj [(lit ''date_work'', JStr (lit ''2024-03-15''))]]"
  let ?ys = "[JObj [(lit ''date_work'', JStr (lit ''2024-03-01''))]]"
  let ?bad = "[(lit ''date_work'', JStr (lit ''2024-03-15 10:00:00''))]"
  let ?sd = "\<lparr>d_year = 2024, d_month = 3, d_day = 1\<rparr>"
  let ?ed = "\<lparr>d_year = 2024, d_month = 3, d_day = 14\<rparr>"
  have bad: "bad_date ascii_lib ?bad"
    by (simp add: bad_date_def parse_with_time)
  have dicts: "list_all is_dict (?xs @ ?ys)" by simp
  from filter_reports_by_date_skips_bad_dates[OF parse_march_1 parse_march_14 bad, of ?xs ?ys] dicts
  have "filter_reports_by_date ascii_lib (JList (?xs @ JObj ?bad # ?ys))
          (lit ''2024-03-01'') (lit ''2024-03-14'') =
        Inr (filter (in_window ascii_lib ?sd ?ed) (?xs @ ?ys))"
    by blast
  moreover have "filter (in_window ascii_lib ?sd ?ed) (?xs @ ?ys) = ?ys"
    by (simp add: in_window_def report_date_str parse_march_1 parse_march_15 date_le_def)
  ultimately show ?thesis
    using parse_march_1 parse_march_14 bad dicts by simp
qed




section \<open>Category paths (src/api/client.py)\<close>

text \<open>
  The expression \<open>"".join(c for c in name if c.isalnum() or c in (' ', '_')).rstrip()\<close>,
  which the source writes out at each of its three sites. The generator walks whatever
  \<open>name\<close> is; \<open>c.isalnum()\<close> needs every element to be a string.
\<close>

fun keep_name_chars :: "pylib \<Rightarrow> json list \<Rightarrow> exn + pystr" where
  "keep_name_chars lib [] = Inr []"
| "keep_name_chars lib (c # cs) =
     (case c of
        JStr t \<Rightarrow>
          (case keep_name_chars lib cs of
             Inl e \<Rightarrow> Inl e
           | Inr rest \<Rightarrow>
               Inr (if str_isalnum lib t \<or> t = lit '' '' \<or> t = lit ''_'' then t @ rest else rest))
      | _ \<Rightarrow> Inl AttributeError)"

definition sanitize_name :: "pylib \<Rightarrow> json \<Rightarrow> exn + pystr" where
  "sanitize_name lib name =
     (case py_iter name of
        Inl e \<Rightarrow> Inl e
      | Inr cs \<Rightarrow>
         (case keep_name_chars lib cs of
            Inl e \<Rightarrow> Inl e
          | Inr kept \<Rightarrow> Inr (rstrip lib kept)))"

text \<open>
  The dict \<open>_process_images_for_reports\<close> queues for a download. Its \<open>url\<close> has passed
  \<open>urlparse\<close> and is a string.
\<close>

record file_info =
  fi_url :: pystr
  fi_filename :: pystr
  fi_technician_name :: json
  fi_client_name :: json

text \<open>Line 213: the category of the dedup check before an image is queued.\<close>

definition image_enqueue_category :: "pylib \<Rightarrow> json \<Rightarrow> json \<Rightarrow> exn + pystr" where
  "image_enqueue_category lib technician_name client_name =
     (case sanitize_name lib technician_name of
        Inl e \<Rightarrow> Inl e
      | Inr tech \<Rightarrow>
         (case sanitize_name lib client_name of
            Inl e \<Rightarrow> Inl e
          | Inr client \<Rightarrow> Inr (os_path_join lib tech [client, lit ''Foto''])))"

text \<open>Lines 231 to 233: \<open>sane_tech\<close>, \<open>sane_client\<close> and the category in the worker.\<close>

definition image_worker_category :: "pylib \<Rightarrow> file_info \<Rightarrow> exn + pystr" where
  "image_worker_category lib file_info =
     (case sanitize_name lib (fi_technician_name file_info) of
        Inl e \<Rightarrow> Inl e
      | Inr sane_tech \<Rightarrow>
         (case sanitize_name lib (fi_client_name file_info) of
            Inl e \<Rightarrow> Inl e
          | Inr sane_client \<Rightarrow> Inr (os_path_join lib sane_tech [sane_client, lit ''Foto''])))"

text \<open>Line 264: the category of a rendered report.\<close>

definition pdf_category :: "pylib \<Rightarrow> json \<Rightarrow> json \<Rightarrow> exn + pystr" where
  "pdf_category lib technician_name client_name =
     (case sanitize_name lib technician_name of
        Inl e \<Rightarrow> Inl e
      | Inr tech \<Rightarrow>
         (case sanitize_name lib client_name of
            Inl e \<Rightarrow> Inl e
          | Inr client \<Rightarrow> Inr (os_path_join lib tech [client, lit ''STS Reports''])))"

text \<open>
  The derivation in the words of the specification: strip every character that is not
  alphanumeric, a space or an underscore, trim the trailing whitespace, and join the
  two names with the folder of the kind.
\<close>

definition strip_name :: "pylib \<Rightarrow> pystr \<Rightarrow> pystr" where
  "strip_name lib name =
     rstrip lib (filter (\<lambda>c. char_isalnum lib c \<or> c = 32 \<or> c = 95) name)"

definition category_path :: "pylib \<Rightarrow> pystr \<Rightarrow> pystr \<Rightarrow> pystr \<Rightarrow> pystr" where
  "category_path lib technician client kind =
     os_path_join lib (strip_name lib technician) [strip_name lib client, kind]"

lemma lit_space: "lit '' '' = [32]" and lit_underscore: "lit ''_'' = [95]"
  by (simp_all add: lit_def)

lemma keep_name_chars_str:
  "keep_name_chars lib (map (\<lambda>c. JStr [c]) s) =
     Inr (filter (\<lambda>c. char_isalnum lib c \<or> c = 32 \<or> c = 95) s)"
  by (induction s) (simp_all add: str_isalnum_def lit_space lit_underscore)

lemma sanitize_name_str: "sanitize_name lib (JStr s) = Inr (strip_name lib s)"
  by (simp add: sanitize_name_def keep_name_chars_str strip_name_def)

text \<open>
  Claim C2. For every technician name and client name, the category of the dedup
  check before queueing and the category the download worker computes from the queued
  entry are the same value (the same path, or the same exception for a name that is not
  text). For names that are strings, each of the three sites yields the path of the
  specification with the sanitized names: the two image sites under \<open>Foto\<close>, the report
  site under \<open>STS Reports\<close>.
\<close>

theorem category_sites_agree:
  "image_worker_category lib
     \<lparr>fi_url = u, fi_filename = f, fi_technician_name = technician_name,
      fi_client_name = client_name\<rparr> =
     image_enqueue_category lib technician_name client_name \<and>
   image_enqueue_category lib (JStr t) (JStr c) = Inr (category_path lib t c (lit ''Foto'')) \<and>
   image_worker_category lib
     \<lparr>fi_url = u, fi_filename = f, fi_technician_name = JStr t, fi_client_name = JStr c\<rparr> =
     Inr (category_path lib t c (lit ''Foto'')) \<and>
   pdf_category lib (JStr t) (JStr c) = Inr (category_path lib t c (lit ''STS Reports''))"
  by (simp add: image_worker_category_def image_enqueue_category_def pdf_category_def
      sanitize_name_str category_path_def split: sum.splits)

lemma sanitize_name_example:
  "sanitize_name ascii_lib (JStr (lit ''Budi S. '')) = Inr (lit ''Budi S'')"
  by (simp add: sanitize_name_str strip_name_def rstrip_def ascii_lib_def lit_def ascii_isalnum_def ascii_isspace_def)




section \<open>The outside world and the state of a run\<close>

text \<open>
  What the program does to the outside is recorded as a trace of events: a request to
  the catalog, a directory made, a file transferred, a browser launched, a document
  composed, a page opened, filled, printed and closed. What the outside answers is a
  parameter of the model: each answer is a function of the trace so far and of the
  request, so the answers may change during a run, and every theorem holds for all of
  them. So are the scheduler of a pool of threads (\<open>w_pool_move\<close>) and the garbage
  collector of the interpreter (\<open>w_collected\<close>: whether it has freed what the threads
  that ended left behind).
\<close>

datatype http_method = GET | POST

text \<open>
  A request of \<open>_fetch_api_data\<close>: \<open>session.get\<close>, \<open>session.post\<close> or
  \<open>raise_for_status\<close> raises \<open>RequestException\<close>, \<open>response.json()\<close> raises
  \<open>ValueError\<close>, or the decoded body is there.
\<close>

datatype http_reply = Request_failed | Not_json | Body json

text \<open>
  The streamed download of the worker, by where it ends: \<open>session.get\<close> or
  \<open>raise_for_status\<close> raises \<open>RequestException\<close>; \<open>open\<close> raises \<open>OSError\<close>;
  \<open>iter_content\<close> raises \<open>RequestException\<close> after part of the file is written;
  \<open>f.write\<close> raises \<open>OSError\<close>; or every chunk is on disk.
\<close>

datatype transfer = Get_failed | Open_failed | Stream_failed | Write_failed | Streamed

datatype event =
    Api_call http_method pystr json
  | Makedirs pystr
  | Transfer pystr pystr transfer
  | Launch pystr
  | Compose json
  | New_page
  | Set_content pystr
  | Page_pdf pystr
  | Page_close

text \<open>
  A move of a pool of worker threads: an idle thread takes the entry at the head of the
  queue, the worker of a running entry finishes, or the result of a finished entry is
  logged.
\<close>

datatype pool_move = Start nat | Finish nat | Report nat

record world =
  w_http :: "event list \<Rightarrow> http_method \<Rightarrow> pystr \<Rightarrow> json \<Rightarrow> http_reply"
  w_makedirs_fails :: "event list \<Rightarrow> pystr \<Rightarrow> bool"
  w_transfer :: "event list \<Rightarrow> pystr \<Rightarrow> pystr \<Rightarrow> transfer"
  w_clock :: "event list \<Rightarrow> nat"
  w_path_exists :: "event list \<Rightarrow> pystr \<Rightarrow> bool"
  w_environ :: "pystr \<Rightarrow> pystr option"
  w_browser_connected :: "event list \<Rightarrow> bool"
  w_default_executable :: "event list \<Rightarrow> exn + pystr"
  w_launch :: "event list \<Rightarrow> pystr \<Rightarrow> exn option"
  w_compose :: "event list \<Rightarrow> json \<Rightarrow> json \<Rightarrow> json \<Rightarrow> exn + pystr"
  w_new_page :: "event list \<Rightarrow> exn option"
  w_set_content :: "event list \<Rightarrow> pystr \<Rightarrow> exn option"
  w_page_pdf :: "event list \<Rightarrow> pystr \<Rightarrow> exn option"
  w_page_close :: "event list \<Rightarrow> exn option"
  w_pool_move :: "event list \<Rightarrow> nat list \<Rightarrow> nat \<Rightarrow> nat \<Rightarrow> pool_move"
  w_collected :: "event list \<Rightarrow> bool"

text \<open>The lines \<open>log_callback\<close> receives, one constructor for each message of the source.\<close>

datatype log_line =
    Log_not_logged_in
  | Log_synced_clients nat
  | Log_sync_warning
  | Log_abort_no_clients
  | Log_browser_init
  | Log_chrome_path_missing
  | Log_chrome_fallback
  | Log_chromium_fatal exn
  | Log_using_browser pystr
  | Log_browser_ok
  | Log_browser_fatal exn
  | Log_browser_tip
  | Log_pdfs_skipped
  | Log_client nat nat json
  | Log_no_contracts
  | Log_found_reports nat json
  | Log_found_images nat
  | Log_image_success pystr
  | Log_image_failed pystr
  | Log_image_error pystr exn
  | Log_generating_pdf json
  | Log_pdf_success pystr
  | Log_pdf_failed json exn
  | Log_separator
  | Log_finished
  | Log_downloaded_images nat
  | Log_generated_pdfs nat

text \<open>
  The state of a run: the history store, the lines logged, the trace, and the fields of
  \<open>PestCareClient\<close> the run reads (\<open>auth_token\<close>, \<open>account_info\<close>, \<open>chrome_path\<close>, and
  whether \<open>browser\<close> holds a browser).
\<close>

record state =
  st_db :: database
  st_log :: "log_line list"
  st_trace :: "event list"
  auth_token :: "pystr option"
  account_info :: json
  chrome_path :: pystr
  has_browser :: bool

definition add_log :: "log_line \<Rightarrow> state \<Rightarrow> state" where
  "add_log l s = s\<lparr>st_log := st_log s @ [l]\<rparr>"

definition add_event :: "event \<Rightarrow> state \<Rightarrow> state" where
  "add_event e s = s\<lparr>st_trace := st_trace s @ [e]\<rparr>"

section \<open>Requests to the catalog (\<open>_fetch_api_data\<close>)\<close>

text \<open>
  Every caller passes \<open>'GET'\<close> (the default) or \<open>'POST'\<close> as the method. A failed
  request and a body that is not JSON give \<open>None\<close>; \<open>data.get\<close> on a decoded body that
  is not a dict raises \<open>AttributeError\<close>, which the \<open>except\<close> clause does not catch.
\<close>

definition fetch_api_data ::
  "world \<Rightarrow> http_method \<Rightarrow> pystr \<Rightarrow> json \<Rightarrow> state \<Rightarrow> (exn + json) \<times> state" where
  "fetch_api_data w method endpoint arg s =
     (let s' = add_event (Api_call method endpoint arg) s in
      case w_http w (st_trace s) method endpoint arg of
        Request_failed \<Rightarrow> (Inr JNull, s')
      | Not_json \<Rightarrow> (Inr JNull, s')
      | Body data \<Rightarrow>
         (case py_get data (lit ''body'') JNull of
            Inl e \<Rightarrow> (Inl e, s')
          | Inr body \<Rightarrow>
             (if truthy body then (Inr body, s')
              else case py_get data (lit ''data'') JNull of
                Inl e \<Rightarrow> (Inl e, s')
              | Inr d \<Rightarrow> (Inr d, s'))))"

section \<open>Image downloads\<close>

subsection \<open>The worker (\<open>_download_image_worker\<close>)\<close>

text \<open>
  The worker runs on a thread \<open>t\<close> of the pool. \<open>os.makedirs\<close> stands before the
  \<open>try\<close>, so its \<open>OSError\<close> leaves the worker; inside the \<open>try\<close> only
  \<open>RequestException\<close> is caught and turned into \<open>(False, filename)\<close>. The record is
  added after the \<open>with\<close> blocks, when the last chunk is written, through the
  connection of \<open>t\<close>; the \<open>OperationalError\<close> of a store that is locked is no
  \<open>RequestException\<close> and leaves the worker.
\<close>

definition download_image_worker ::
  "pylib \<Rightarrow> world \<Rightarrow> thread \<Rightarrow> file_info \<Rightarrow> pystr \<Rightarrow> state \<Rightarrow> (exn + bool \<times> pystr) \<times> state" where
  "download_image_worker lib w t file_info download_folder s =
     (case image_worker_category lib file_info of
        Inl e \<Rightarrow> (Inl e, s)
      | Inr category \<Rightarrow>
         (let download_path = os_path_join lib download_folder [category];
              s1 = add_event (Makedirs download_path) s
          in if w_makedirs_fails w (st_trace s) download_path then (Inl OSError, s1)
             else
               (let file_path = os_path_join lib download_path [fi_filename file_info];
                    outcome = w_transfer w (st_trace s1) (fi_url file_info) file_path;
                    s2 = add_event (Transfer (fi_url file_info) file_path outcome) s1
                in case outcome of
                     Get_failed \<Rightarrow> (Inr (False, fi_filename file_info), s2)
                   | Stream_failed \<Rightarrow> (Inr (False, fi_filename file_info), s2)
                   | Open_failed \<Rightarrow> (Inl OSError, s2)
                   | Write_failed \<Rightarrow> (Inl OSError, s2)
                   | Streamed \<Rightarrow>
                      (case add_download_record t (w_clock w (st_trace s2))
                              (fi_filename file_info) category (fi_url file_info)
                              (free_orphaned (w_collected w (st_trace s2)) (st_db s2)) of
                         (Some e, db') \<Rightarrow> (Inl e, s2\<lparr>st_db := db'\<rparr>)
                       | (None, db') \<Rightarrow> (Inr (True, fi_filename file_info), s2\<lparr>st_db := db'\<rparr>)))))"

subsection \<open>The pool (\<open>_process_images_for_reports\<close>, lines 216 to 228)\<close>

text \<open>
  \<open>ThreadPoolExecutor(max_workers=n)\<close> has at most \<open>n\<close> worker threads and a queue.
  \<open>submit\<close> puts the entries on the queue in the order of the list; a thread that
  is idle takes the next entry and runs the worker on it; the loop over
  \<open>as_completed\<close> takes the futures that are done, in the order it finds them, and
  logs each result, where \<open>except Exception\<close> around \<open>future.result()\<close> catches what
  the worker raised. Which thread takes an entry, which worker finishes next and
  which result is logged next is for the scheduler to say: \<open>w_pool_move\<close> answers from
  the trace, the threads that are busy, and the numbers of entries waiting and of
  results not yet logged.

  The state of the pool: the entries that are running, each with the number of its
  thread; the entries waiting; and the results not yet logged. The steps of a worker
  are taken together, when it finishes: two workers write different files, and their
  calls to the store are serialized by the lock of the database.
\<close>

type_synonym job_result = "exn + bool \<times> pystr"

fun job_failed :: "job_result \<Rightarrow> bool" where
  "job_failed (Inl e) = True"
| "job_failed (Inr (success, fname)) = (\<not> success)"

text \<open>The line the loop logs for a result (lines 222 to 227).\<close>

fun result_line :: "file_info \<Rightarrow> job_result \<Rightarrow> log_line" where
  "result_line f_info (Inl exc) = Log_image_error (fi_filename f_info) exc"
| "result_line f_info (Inr (success, fname)) =
     (if success then Log_image_success fname else Log_image_failed fname)"

text \<open>
  A move of the scheduler can be made when: a thread that starts is one of the \<open>n\<close>, is
  not busy, and an entry is waiting; the worker that finishes is running; the result
  that is logged is there. An answer that cannot be made is replaced by the first move
  that can.
\<close>

definition move_possible ::
  "nat \<Rightarrow> (nat \<times> file_info) list \<Rightarrow> file_info list \<Rightarrow> (file_info \<times> job_result) list \<Rightarrow>
   pool_move \<Rightarrow> bool" where
  "move_possible n running waiting finished m =
     (case m of
        Start t \<Rightarrow> waiting \<noteq> [] \<and> t < n \<and> t \<notin> set (map fst running)
      | Finish k \<Rightarrow> k < length running
      | Report j \<Rightarrow> j < length finished)"

definition next_move ::
  "world \<Rightarrow> nat \<Rightarrow> (nat \<times> file_info) list \<Rightarrow> file_info list \<Rightarrow>
   (file_info \<times> job_result) list \<Rightarrow> state \<Rightarrow> pool_move" where
  "next_move w n running waiting finished s =
     (let m = w_pool_move w (st_trace s) (map fst running) (length waiting) (length finished)
      in if move_possible n running waiting finished m then m
         else if finished \<noteq> [] then Report 0
         else if running \<noteq> [] then Finish 0
         else Start 0)"

lemma next_move_start:
  assumes "next_move w n running waiting finished s = Start t"
    and "\<not> (running = [] \<and> waiting = [] \<and> finished = [])"
  shows "waiting \<noteq> []"
  using assms
  by (auto simp: next_move_def move_possible_def Let_def split: if_splits)

lemma next_move_finish:
  assumes "next_move w n running waiting finished s = Finish k"
  shows "k < length running"
  using assms
  by (auto simp: next_move_def move_possible_def Let_def split: if_splits)

lemma next_move_report:
  assumes "next_move w n running waiting finished s = Report j"
  shows "j < length finished"
  using assms
  by (auto simp: next_move_def move_possible_def Let_def split: if_splits)

function download_pool ::
  "pylib \<Rightarrow> world \<Rightarrow> pystr \<Rightarrow> nat \<Rightarrow> (nat \<times> file_info) list \<Rightarrow> file_info list \<Rightarrow>
   (file_info \<times> job_result) list \<Rightarrow> nat \<Rightarrow> state \<Rightarrow> nat \<times> state" where
  "download_pool lib w output_folder n running waiting finished count s =
     (if running = [] \<and> waiting = [] \<and> finished = [] then (count, s)
      else case next_move w n running waiting finished s of
        Start t \<Rightarrow>
          download_pool lib w output_folder n (running @ [(t, hd waiting)]) (tl waiting)
            finished count s
      | Finish k \<Rightarrow>
          (case download_image_worker lib w (Pool_thread (fst (running ! k)))
                  (snd (running ! k)) output_folder s of
             (res, s') \<Rightarrow>
               download_pool lib w output_folder n (take k running @ drop (Suc k) running)
                 waiting (finished @ [(snd (running ! k), res)]) count s')
      | Report j \<Rightarrow>
          download_pool lib w output_folder n running waiting
            (take j finished @ drop (Suc j) finished)
            (if job_failed (snd (finished ! j)) then count else count + 1)
            (add_log (result_line (fst (finished ! j)) (snd (finished ! j))) s))"
  by pat_completeness auto

termination
proof (relation "measure (\<lambda>(lib, w, output_folder, n, running, waiting, finished, count, s).
                   3 * length waiting + 2 * length running + length finished)")
  show "wf (measure (\<lambda>(lib, w, output_folder, n, running, waiting, finished, count, s).
                   3 * length waiting + 2 * length running + length finished))"
    by simp
next
  fix lib :: pylib and w :: world and output_folder :: pystr and n :: nat
    and running :: "(nat \<times> file_info) list" and waiting :: "file_info list"
    and finished :: "(file_info \<times> job_result) list" and count :: nat and s :: state and t :: nat
  assume "\<not> (running = [] \<and> waiting = [] \<and> finished = [])"
    and "next_move w n running waiting finished s = Start t"
  then have "waiting \<noteq> []"
    using next_move_start by blast
  then show "((lib, w, output_folder, n, running @ [(t, hd waiting)], tl waiting, finished,
               count, s),
              (lib, w, output_folder, n, running, waiting, finished, count, s))
             \<in> measure (\<lambda>(lib, w, output_folder, n, running, waiting, finished, count, s).
                   3 * length waiting + 2 * length running + length finished)"
    by (cases waiting) simp_all
next
  fix lib :: pylib and w :: world and output_folder :: pystr and n :: nat
    and running :: "(nat \<times> file_info) list" and waiting :: "file_info list"
    and finished :: "(file_info \<times> job_result) list" and count :: nat and s :: state and k :: nat
    and x :: "job_result \<times> state" and res :: job_result and s' :: state
  assume "next_move w n running waiting finished s = Finish k"
  then have "k < length running"
    by (rule next_move_finish)
  then show "((lib, w, output_folder, n, take k running @ drop (Suc k) running, waiting,
               finished @ [(snd (running ! k), res)], count, s'),
              (lib, w, output_folder, n, running, waiting, finished, count, s))
             \<in> measure (\<lambda>(lib, w, output_folder, n, running, waiting, finished, count, s).
                   3 * length waiting + 2 * length running + length finished)"
    by simp
next
  fix lib :: pylib and w :: world and output_folder :: pystr and n :: nat
    and running :: "(nat \<times> file_info) list" and waiting :: "file_info list"
    and finished :: "(file_info \<times> job_result) list" and count :: nat and s :: state and j :: nat
  assume "next_move w n running waiting finished s = Report j"
  then have "j < length finished"
    by (rule next_move_report)
  then show "((lib, w, output_folder, n, running, waiting,
               take j finished @ drop (Suc j) finished,
               if job_failed (snd (finished ! j)) then count else count + 1,
               add_log (result_line (fst (finished ! j)) (snd (finished ! j))) s),
              (lib, w, output_folder, n, running, waiting, finished, count, s))
             \<in> measure (\<lambda>(lib, w, output_folder, n, running, waiting, finished, count, s).
                   3 * length waiting + 2 * length running + length finished)"
    by simp
qed

text \<open>
  Leaving the \<open>with\<close> block shuts the pool down and its threads end. The connection of
  a worker thread that returned with the lock held is not closed by that: the lock is
  orphaned.
\<close>

definition shutdown_pool :: "database \<Rightarrow> database" where
  "shutdown_pool db =
     (case write_lock db of
        Held (Pool_thread i) \<Rightarrow> db\<lparr>write_lock := Orphaned\<rparr>
      | _ \<Rightarrow> db)"

subsection \<open>Queueing (\<open>_process_images_for_reports\<close>, lines 200 to 215)\<close>

text \<open>\<open>os.path.splitext(urlparse(file_url).path)[1] or '.jpg'\<close>; \<open>urlparse\<close> needs text.\<close>

fun extension_or_jpg :: "pylib \<Rightarrow> json \<Rightarrow> exn + pystr \<times> pystr" where
  "extension_or_jpg lib (JStr u) =
     (case url_extension lib u of
        Inl e \<Rightarrow> Inl e
      | Inr ext \<Rightarrow> Inr (u, if ext \<noteq> [] then ext else lit ''.jpg''))"
| "extension_or_jpg lib _ = Inl AttributeError"

definition image_file_name :: "pylib \<Rightarrow> json \<Rightarrow> json \<Rightarrow> pystr \<Rightarrow> pystr" where
  "image_file_name lib schedule_id file_id ext =
     lit ''ReportImage_'' @ format_value lib schedule_id @ lit ''_'' @
     format_value lib file_id @ ext"

fun enqueue_files ::
  "pylib \<Rightarrow> database \<Rightarrow> json \<Rightarrow> json \<Rightarrow> json \<Rightarrow> json list \<Rightarrow> file_info list \<Rightarrow> exn + file_info list" where
  "enqueue_files lib db schedule_id technician_name client_name [] files_to_download =
     Inr files_to_download"
| "enqueue_files lib db schedule_id technician_name client_name (file_data # rest) files_to_download =
     (case py_get file_data (lit ''filename'') JNull of
        Inl e \<Rightarrow> Inl e
      | Inr file_url \<Rightarrow>
         (case py_get file_data (lit ''id'') JNull of
            Inl e \<Rightarrow> Inl e
          | Inr file_id \<Rightarrow>
             (if \<not> truthy file_url \<or> \<not> truthy file_id
              then enqueue_files lib db schedule_id technician_name client_name rest files_to_download
              else case extension_or_jpg lib file_url of
                Inl e \<Rightarrow> Inl e
              | Inr (u, ext) \<Rightarrow>
                 (case image_enqueue_category lib technician_name client_name of
                    Inl e \<Rightarrow> Inl e
                  | Inr category \<Rightarrow>
                     (let filename = image_file_name lib schedule_id file_id ext in
                      if \<not> is_already_downloaded db filename category
                      then enqueue_files lib db schedule_id technician_name client_name rest
                             (files_to_download @
                                [\<lparr>fi_url = u, fi_filename = filename,
                                  fi_technician_name = technician_name,
                                  fi_client_name = client_name\<rparr>])
                      else enqueue_files lib db schedule_id technician_name client_name rest
                             files_to_download)))))"

definition manifest_payload :: "json \<Rightarrow> json" where
  "manifest_payload schedule_id =
     JObj [(lit ''schedule_id'', schedule_id), (lit ''type'', JStr (lit ''sts''))]"

definition collect_report ::
  "pylib \<Rightarrow> world \<Rightarrow> json \<Rightarrow> json \<Rightarrow> file_info list \<Rightarrow> state \<Rightarrow> (exn + file_info list) \<times> state" where
  "collect_report lib w client_name report files_to_download s =
     (case py_get report (lit ''schedule_id'') JNull of
        Inl e \<Rightarrow> (Inl e, s)
      | Inr schedule_id \<Rightarrow>
         (case py_get report (lit ''employee_name'') (JStr (lit ''Unknown_Technician'')) of
            Inl e \<Rightarrow> (Inl e, s)
          | Inr technician_name \<Rightarrow>
             (if \<not> truthy schedule_id then (Inr files_to_download, s)
              else case fetch_api_data w POST (lit ''/web/api/schedule/file-uploaded'')
                          (manifest_payload schedule_id) s of
                (Inl e, s') \<Rightarrow> (Inl e, s')
              | (Inr uploaded_files, s') \<Rightarrow>
                 (if \<not> truthy uploaded_files then (Inr files_to_download, s')
                  else case py_iter uploaded_files of
                    Inl e \<Rightarrow> (Inl e, s')
                  | Inr file_datas \<Rightarrow>
                     (case enqueue_files lib (st_db s') schedule_id technician_name client_name
                             file_datas files_to_download of
                        Inl e \<Rightarrow> (Inl e, s')
                      | Inr files \<Rightarrow> (Inr files, s'))))))"

fun collect_files ::
  "pylib \<Rightarrow> world \<Rightarrow> json \<Rightarrow> json list \<Rightarrow> file_info list \<Rightarrow> state \<Rightarrow> (exn + file_info list) \<times> state" where
  "collect_files lib w client_name [] files_to_download s = (Inr files_to_download, s)"
| "collect_files lib w client_name (report # reports) files_to_download s =
     (case collect_report lib w client_name report files_to_download s of
        (Inl e, s') \<Rightarrow> (Inl e, s')
      | (Inr files, s') \<Rightarrow> collect_files lib w client_name reports files s')"

text \<open>
  \<open>ThreadPoolExecutor(max_workers=n)\<close> raises \<open>ValueError\<close> for \<open>n \<le> 0\<close>. The pool
  starts with every entry waiting and ends when every result is logged.
\<close>

definition process_images_for_reports ::
  "pylib \<Rightarrow> world \<Rightarrow> json list \<Rightarrow> json \<Rightarrow> pystr \<Rightarrow> int \<Rightarrow> state \<Rightarrow> (exn + nat) \<times> state" where
  "process_images_for_reports lib w reports client_name output_folder max_workers s =
     (case collect_files lib w client_name reports [] s of
        (Inl e, s') \<Rightarrow> (Inl e, s')
      | (Inr files_to_download, s') \<Rightarrow>
         (if files_to_download = [] then (Inr 0, s')
          else
            (let s2 = add_log (Log_found_images (length files_to_download)) s' in
             if max_workers \<le> 0 then (Inl ValueError, s2)
             else case download_pool lib w output_folder (nat max_workers) [] files_to_download
                         [] 0 s2 of
               (count, s3) \<Rightarrow> (Inr count, s3\<lparr>st_db := shutdown_pool (st_db s3)\<rparr>))))"

subsection \<open>A failed download leaves no record and stops nothing\<close>


lemma free_orphaned_history [simp]:
  "download_history (free_orphaned c db) = download_history db"
  by (simp add: free_orphaned_def)


lemma free_orphaned_granted:
  "lock_granted t db \<Longrightarrow> free_orphaned c db = db"
  by (auto simp: free_orphaned_def lock_granted_def)











subsection \<open>An example world\<close>

text \<open>
  For examples: a catalog with one client and nothing else, transfers that break
  while streaming, no Chrome anywhere and a browser that does not launch. The
  scheduler starts a thread for each entry that waits while it can, then lets the
  workers finish in the order they started, then has the results logged; the garbage
  collector does not run.
\<close>

definition example_world :: world where
  "example_world =
     \<lparr>w_http = (\<lambda>tr m endpoint arg.
         if endpoint = lit ''/web/api/client/no-paging''
         then Body (JObj [(lit ''body'',
                 JList [JObj [(lit ''id'', JInt 1), (lit ''name'', JStr (lit ''Acme''))]])])
         else Request_failed),
      w_makedirs_fails = (\<lambda>tr p. False),
      w_transfer = (\<lambda>tr u p. Stream_failed),
      w_clock = (\<lambda>tr. length tr),
      w_path_exists = (\<lambda>tr p. False),
      w_environ = (\<lambda>k. None),
      w_browser_connected = (\<lambda>tr. False),
      w_default_executable = (\<lambda>tr. Inr (lit ''chrome'')),
      w_launch = (\<lambda>tr p. Some ExternalError),
      w_compose = (\<lambda>tr r a b. Inl ExternalError),
      w_new_page = (\<lambda>tr. Some ExternalError),
      w_set_content = (\<lambda>tr h. Some ExternalError),
      w_page_pdf = (\<lambda>tr p. Some ExternalError),
      w_page_close = (\<lambda>tr. Some ExternalError),
      w_pool_move = (\<lambda>tr busy waiting finished.
         if 0 < waiting then Start (length busy)
         else if busy \<noteq> [] then Finish 0
         else Report 0),
      w_collected = (\<lambda>tr. False)\<rparr>"

definition example_state :: state where
  "example_state =
     \<lparr>st_db = create_tables None, st_log = [], st_trace = [],
      auth_token = Some (lit ''token''), account_info = JObj [(lit ''employee_branch_id'', JInt 3)],
      chrome_path = [], has_browser = False\<rparr>"

definition example_info :: file_info where
  "example_info =
     \<lparr>fi_url = lit ''http://x/a.png'', fi_filename = lit ''ReportImage_7_1.png'',
      fi_technician_name = JStr (lit ''Budi S.''), fi_client_name = JStr (lit ''Acme'')\<rparr>"

definition other_info :: file_info where
  "other_info =
     \<lparr>fi_url = lit ''http://x/b.png'', fi_filename = lit ''ReportImage_7_2.png'',
      fi_technician_name = JStr (lit ''Budi S.''), fi_client_name = JStr (lit ''Acme'')\<rparr>"

definition streaming_world :: world where
  "streaming_world = example_world\<lparr>w_transfer := (\<lambda>tr u p. Streamed)\<rparr>"










text \<open>
  A batch with the same entry twice and another entry after it, all fully streamed,
  in a store that is new. With three threads the first worker records its file, the
  second meets the \<open>IntegrityError\<close>, and the third, whose file is new, is refused
  the lock: two lines \<open>SUCCESS\<close>, a line \<open>ERROR\<close>, and no row for the third file. With
  one thread the same batch gives three lines \<open>SUCCESS\<close> and a row for each file.
\<close>

lemma example_pool_three_threads:
  "fst (download_pool ascii_lib streaming_world (lit ''out'') 3 []
          [example_info, example_info, other_info] [] 0 example_state) = 2 \<and>
   st_log (snd (download_pool ascii_lib streaming_world (lit ''out'') 3 []
          [example_info, example_info, other_info] [] 0 example_state)) =
     [Log_image_success (lit ''ReportImage_7_1.png''),
      Log_image_success (lit ''ReportImage_7_1.png''),
      Log_image_error (lit ''ReportImage_7_2.png'') OperationalError] \<and>
   map h_filename (download_history (st_db (snd (download_pool ascii_lib streaming_world
          (lit ''out'') 3 [] [example_info, example_info, other_info] [] 0 example_state)))) =
     [lit ''ReportImage_7_1.png''] \<and>
   write_lock (st_db (snd (download_pool ascii_lib streaming_world
          (lit ''out'') 3 [] [example_info, example_info, other_info] [] 0 example_state))) =
     Held (Pool_thread 1)"
  by code_simp

lemma example_pool_one_thread:
  "fst (download_pool ascii_lib streaming_world (lit ''out'') 1 []
          [example_info, example_info, other_info] [] 0 example_state) = 3 \<and>
   st_log (snd (download_pool ascii_lib streaming_world (lit ''out'') 1 []
          [example_info, example_info, other_info] [] 0 example_state)) =
     [Log_image_success (lit ''ReportImage_7_1.png''),
      Log_image_success (lit ''ReportImage_7_1.png''),
      Log_image_success (lit ''ReportImage_7_2.png'')] \<and>
   map h_filename (download_history (st_db (snd (download_pool ascii_lib streaming_world
          (lit ''out'') 1 [] [example_info, example_info, other_info] [] 0 example_state)))) =
     [lit ''ReportImage_7_1.png'', lit ''ReportImage_7_2.png''] \<and>
   write_lock (st_db (snd (download_pool ascii_lib streaming_world
          (lit ''out'') 1 [] [example_info, example_info, other_info] [] 0 example_state))) =
     Unlocked"
  by code_simp


section \<open>Rendering reports (\<open>_process_pdfs_for_reports\<close>)\<close>

text \<open>\<open>client_name.replace('/', '_')\<close>, and the file name of line 263.\<close>

definition replace_slash :: "pystr \<Rightarrow> pystr" where
  "replace_slash s = map (\<lambda>c. if c = 47 then 95 else c) s"

fun pdf_file_name :: "pylib \<Rightarrow> json \<Rightarrow> json \<Rightarrow> json \<Rightarrow> exn + pystr" where
  "pdf_file_name lib (JStr client_name) report_date' schedule_id =
     Inr (lit ''STS_Report_'' @ replace_slash client_name @ lit ''_'' @
          format_value lib report_date' @ lit ''_'' @ format_value lib schedule_id @ lit ''.pdf'')"
| "pdf_file_name lib _ report_date' schedule_id = Inl AttributeError"

text \<open>\<open>report[key] = v\<close>.\<close>

fun py_setitem :: "json \<Rightarrow> pystr \<Rightarrow> json \<Rightarrow> exn + json" where
  "py_setitem (JObj d) k v = Inr (JObj (AList.update k v d))"
| "py_setitem _ k v = Inl TypeError"

text \<open>Lines 248 to 251: the branch name and the client address of the contract.\<close>

definition contract_enrichment :: "json \<Rightarrow> exn + json \<times> json" where
  "contract_enrichment full_contract_data =
     (case (if truthy full_contract_data
            then py_get full_contract_data (lit ''contract'') (JObj [])
            else Inr (JObj [])) of
        Inl e \<Rightarrow> Inl e
      | Inr contract_info \<Rightarrow>
         (case py_get contract_info (lit ''clients'') (JObj []) of
            Inl e \<Rightarrow> Inl e
          | Inr client_info_details \<Rightarrow>
             (case py_get contract_info (lit ''branches'') (JObj []) of
                Inl e \<Rightarrow> Inl e
              | Inr branches \<Rightarrow>
                 (case py_get branches (lit ''name'') (JStr (lit ''N/A'')) of
                    Inl e \<Rightarrow> Inl e
                  | Inr branch_name \<Rightarrow>
                     (case py_get client_info_details (lit ''address'') (JStr (lit ''N/A'')) of
                        Inl e \<Rightarrow> Inl e
                      | Inr client_address \<Rightarrow> Inr (branch_name, client_address))))))"

text \<open>
  Lines 278 to 281: a page is opened, given the document, printed to the file and
  closed. Each step can raise; \<open>self.browser\<close> being \<open>None\<close> raises at the first.
\<close>

definition render_pdf :: "world \<Rightarrow> pystr \<Rightarrow> pystr \<Rightarrow> state \<Rightarrow> exn option \<times> state" where
  "render_pdf w source_html full_file_path s =
     (if \<not> has_browser s then (Some AttributeError, s)
      else
        (let s1 = add_event New_page s in
         case w_new_page w (st_trace s) of
           Some e \<Rightarrow> (Some e, s1)
         | None \<Rightarrow>
            (let s2 = add_event (Set_content source_html) s1 in
             case w_set_content w (st_trace s1) source_html of
               Some e \<Rightarrow> (Some e, s2)
             | None \<Rightarrow>
                (let s3 = add_event (Page_pdf full_file_path) s2 in
                 case w_page_pdf w (st_trace s2) full_file_path of
                   Some e \<Rightarrow> (Some e, s3)
                 | None \<Rightarrow>
                    (let s4 = add_event Page_close s3 in
                     case w_page_close w (st_trace s3) of
                       Some e \<Rightarrow> (Some e, s4)
                     | None \<Rightarrow> (None, s4))))))"

text \<open>
  The body of the \<open>try\<close> up to the record: the document is composed, rendered and
  recorded, through the connection of the thread of the run. The result is the
  exception \<open>except Exception\<close> catches, if any.
\<close>

definition generate_pdf ::
  "pylib \<Rightarrow> world \<Rightarrow> json \<Rightarrow> json \<Rightarrow> json \<Rightarrow> pystr \<Rightarrow> pystr \<Rightarrow> json \<Rightarrow> pystr \<Rightarrow> state \<Rightarrow>
   exn option \<times> state" where
  "generate_pdf lib w report client_address branch_name filename category schedule_id
     full_file_path s =
     (let s1 = add_event (Compose report) s in
      case w_compose w (st_trace s) report client_address branch_name of
        Inl e \<Rightarrow> (Some e, s1)
      | Inr source_html \<Rightarrow>
         (case render_pdf w source_html full_file_path s1 of
            (Some e, s2) \<Rightarrow> (Some e, s2)
          | (None, s2) \<Rightarrow>
             (case add_download_record Download_thread (w_clock w (st_trace s2)) filename
                     category (lit ''api_generated_'' @ format_value lib schedule_id)
                     (free_orphaned (w_collected w (st_trace s2)) (st_db s2)) of
                (Some e, db') \<Rightarrow> (Some e, s2\<lparr>st_db := db'\<rparr>)
              | (None, db') \<Rightarrow> (None, s2\<lparr>st_db := db'\<rparr>))))"

text \<open>Lines 255, 256 and 262 to 264: the key of the report's document.\<close>

definition pdf_target :: "pylib \<Rightarrow> json \<Rightarrow> json \<Rightarrow> exn + pystr \<times> pystr" where
  "pdf_target lib client_name report =
     (case py_get report (lit ''schedule_id'') JNull of
        Inl e \<Rightarrow> Inl e
      | Inr schedule_id \<Rightarrow>
         (case py_get report (lit ''employee_name'') (JStr (lit ''Unknown_Technician'')) of
            Inl e \<Rightarrow> Inl e
          | Inr technician_name \<Rightarrow>
             (case py_get report (lit ''date_work'') (JStr (lit ''nodate'')) of
                Inl e \<Rightarrow> Inl e
              | Inr report_date' \<Rightarrow>
                 (case pdf_file_name lib client_name report_date' schedule_id of
                    Inl e \<Rightarrow> Inl e
                  | Inr filename \<Rightarrow>
                     (case pdf_category lib technician_name client_name of
                        Inl e \<Rightarrow> Inl e
                      | Inr category \<Rightarrow> Inr (filename, category))))))"

text \<open>
  Lines 268 to 287: what is done for a report whose document is not in the history.
  \<open>os.makedirs\<close> stands before the \<open>try\<close>; \<open>except Exception\<close> turns whatever the
  \<open>try\<close> raised into the line \<open>FAILED (PDF)\<close>.
\<close>

definition produce_pdf ::
  "pylib \<Rightarrow> world \<Rightarrow> pystr \<Rightarrow> json \<Rightarrow> json \<Rightarrow> json \<Rightarrow> json \<Rightarrow> pystr \<Rightarrow> pystr \<Rightarrow> state \<Rightarrow>
   (exn + nat) \<times> state" where
  "produce_pdf lib w output_folder branch_name client_address report schedule_id filename
     category s1 =
     (let s2 = add_log (Log_generating_pdf schedule_id) s1;
          pdf_path = os_path_join lib output_folder [category];
          s3 = add_event (Makedirs pdf_path) s2
      in if w_makedirs_fails w (st_trace s2) pdf_path then (Inl OSError, s3)
         else
           (let full_file_path = os_path_join lib pdf_path [filename] in
            case generate_pdf lib w report client_address branch_name filename category
                   schedule_id full_file_path s3 of
              (Some e, s4) \<Rightarrow> (Inr 0, add_log (Log_pdf_failed schedule_id e) s4)
            | (None, s4) \<Rightarrow> (Inr 1, add_log (Log_pdf_success filename) s4)))"

text \<open>
  One pass of the loop of line 253. The result is the exception that leaves the
  function, or what the pass adds to \<open>count\<close>.
\<close>

definition process_pdf_report ::
  "pylib \<Rightarrow> world \<Rightarrow> json \<Rightarrow> pystr \<Rightarrow> json \<Rightarrow> json \<Rightarrow> json \<Rightarrow> state \<Rightarrow> (exn + nat) \<times> state" where
  "process_pdf_report lib w client_name output_folder branch_name client_address report0 s =
     (case sanitize_report_data report0 of
        Inl e \<Rightarrow> (Inl e, s)
      | Inr report \<Rightarrow>
         (case py_get report (lit ''schedule_id'') JNull of
            Inl e \<Rightarrow> (Inl e, s)
          | Inr schedule_id \<Rightarrow>
             (if \<not> truthy schedule_id then (Inr 0, s)
              else case fetch_api_data w POST (lit ''/web/api/schedule/file-uploaded'')
                          (manifest_payload schedule_id) s of
                (Inl e, s1) \<Rightarrow> (Inl e, s1)
              | (Inr manifest, s1) \<Rightarrow>
                 (case py_setitem report (lit ''uploaded_files'') (py_or manifest (JList [])) of
                    Inl e \<Rightarrow> (Inl e, s1)
                  | Inr report' \<Rightarrow>
                     (case pdf_target lib client_name report' of
                        Inl e \<Rightarrow> (Inl e, s1)
                      | Inr (filename, category) \<Rightarrow>
                         (if is_already_downloaded (st_db s1) filename category then (Inr 0, s1)
                          else produce_pdf lib w output_folder branch_name client_address
                                 report' schedule_id filename category s1))))))"

fun process_pdfs_loop ::
  "pylib \<Rightarrow> world \<Rightarrow> json \<Rightarrow> pystr \<Rightarrow> json \<Rightarrow> json \<Rightarrow> json list \<Rightarrow> nat \<Rightarrow> state \<Rightarrow>
   (exn + nat) \<times> state" where
  "process_pdfs_loop lib w client_name output_folder branch_name client_address [] count s =
     (Inr count, s)"
| "process_pdfs_loop lib w client_name output_folder branch_name client_address
     (report # reports) count s =
     (case process_pdf_report lib w client_name output_folder branch_name client_address report s of
        (Inl e, s') \<Rightarrow> (Inl e, s')
      | (Inr n, s') \<Rightarrow>
          process_pdfs_loop lib w client_name output_folder branch_name client_address
            reports (count + n) s')"

definition process_pdfs_for_reports ::
  "pylib \<Rightarrow> world \<Rightarrow> json list \<Rightarrow> json \<Rightarrow> json \<Rightarrow> pystr \<Rightarrow> state \<Rightarrow> (exn + nat) \<times> state" where
  "process_pdfs_for_reports lib w reports full_contract_data client_name output_folder s =
     (case contract_enrichment full_contract_data of
        Inl e \<Rightarrow> (Inl e, s)
      | Inr (branch_name, client_address) \<Rightarrow>
          process_pdfs_loop lib w client_name output_folder branch_name client_address reports 0 s)"



subsection \<open>A report that is already rendered is skipped\<close>

lemma fetch_api_data_state:
  "snd (fetch_api_data w method endpoint arg s) = add_event (Api_call method endpoint arg) s"
  by (simp add: fetch_api_data_def Let_def split: http_reply.splits sum.splits)

lemma fetch_api_data_pair:
  "fetch_api_data w method endpoint arg s =
     (fst (fetch_api_data w method endpoint arg s), add_event (Api_call method endpoint arg) s)"
  by (metis fetch_api_data_state prod.collapse)

lemma target_keys_kept:
  assumes "k = lit ''schedule_id'' \<or> k = lit ''employee_name'' \<or> k = lit ''date_work''"
  shows "dict_get (AList.update (lit ''uploaded_files'') v (sanitize_keys list_keys d)) k dflt =
         dict_get d k dflt"
proof -
  from assms have "k \<notin> set list_keys" and "k \<noteq> lit ''uploaded_files''"
    by (auto simp: list_keys_def)
  then show ?thesis
    by (simp add: dict_get_def update_conv' map_of_sanitize_keys)
qed

lemma pdf_target_sanitized:
  "pdf_target lib client_name
     (JObj (AList.update (lit ''uploaded_files'') v (sanitize_keys list_keys d))) =
   pdf_target lib client_name (JObj d)"
  by (simp add: pdf_target_def target_keys_kept)

text \<open>
  Claim C3. Take a report whose document key (file name and category) is in the
  history store. Its pass through the loop asks the catalog for the file manifest
  (when its \<open>schedule_id\<close> is true; otherwise it does not even do that) and does
  nothing else: no document is composed, no page is opened or printed, no directory or
  file is made, the history store and the log are as before, and the pass adds nothing
  to the counter. When the reply to the manifest request is malformed, its
  \<open>AttributeError\<close> leaves the function instead, with the same state.
\<close>

theorem rendered_report_is_skipped:
  assumes "pdf_target lib client_name report = Inr (filename, category)"
    and "py_get report (lit ''schedule_id'') JNull = Inr schedule_id"
    and "is_already_downloaded (st_db s) filename category"
  shows "process_pdf_report lib w client_name output_folder branch_name client_address report s =
           (if truthy schedule_id
            then (case fst (fetch_api_data w POST (lit ''/web/api/schedule/file-uploaded'')
                              (manifest_payload schedule_id) s) of
                    Inl e \<Rightarrow> Inl e
                  | Inr manifest \<Rightarrow> Inr 0,
                  add_event (Api_call POST (lit ''/web/api/schedule/file-uploaded'')
                               (manifest_payload schedule_id)) s)
            else (Inr 0, s)) \<and>
         st_db (snd (process_pdf_report lib w client_name output_folder branch_name
                       client_address report s)) = st_db s \<and>
         st_log (snd (process_pdf_report lib w client_name output_folder branch_name
                        client_address report s)) = st_log s \<and>
         st_trace (snd (process_pdf_report lib w client_name output_folder branch_name
                          client_address report s)) =
           st_trace s @
             (if truthy schedule_id
              then [Api_call POST (lit ''/web/api/schedule/file-uploaded'')
                      (manifest_payload schedule_id)]
              else []) \<and>
         (\<forall>n. fst (process_pdf_report lib w client_name output_folder branch_name
                      client_address report s) = Inr n \<longrightarrow>
            n = 0 \<and>
            process_pdfs_loop lib w client_name output_folder branch_name client_address
              (report # rest) count s =
            process_pdfs_loop lib w client_name output_folder branch_name client_address
              rest count
              (snd (process_pdf_report lib w client_name output_folder branch_name
                      client_address report s)))"
proof -
  let ?ev = "Api_call POST (lit ''/web/api/schedule/file-uploaded'') (manifest_payload schedule_id)"
  let ?f = "fetch_api_data w POST (lit ''/web/api/schedule/file-uploaded'')
              (manifest_payload schedule_id) s"
  let ?p = "process_pdf_report lib w client_name output_folder branch_name client_address report s"
  from assms(2) obtain d where d: "report = JObj d"
    by (cases report) auto
  from assms(2) d have sid: "dict_get d (lit ''schedule_id'') JNull = schedule_id"
    by simp
  have "lit ''schedule_id'' \<notin> set list_keys"
    by (simp add: list_keys_def)
  then have sid': "dict_get (sanitize_keys list_keys d) (lit ''schedule_id'') JNull = schedule_id"
    using sid by (simp add: dict_get_def map_of_sanitize_keys)
  have pair: "?f = (fst ?f, add_event ?ev s)"
    by (rule fetch_api_data_pair)
  have db: "st_db (add_event ?ev s) = st_db s"
    by (simp add: add_event_def)
  have main: "?p = (if truthy schedule_id
                    then (case fst ?f of Inl e \<Rightarrow> Inl e | Inr manifest \<Rightarrow> Inr 0,
                          add_event ?ev s)
                    else (Inr 0, s))"
  proof (cases "truthy schedule_id")
    case False
    then show ?thesis
      by (simp add: process_pdf_report_def d sid')
  next
    case True
    show ?thesis
    proof (cases "fst ?f")
      case (Inl e)
      with pair have "?f = (Inl e, add_event ?ev s)" by simp
      with Inl True show ?thesis
        by (simp add: process_pdf_report_def d sid')
    next
      case (Inr manifest)
      with pair have "?f = (Inr manifest, add_event ?ev s)" by simp
      with Inr True show ?thesis
        using assms(1,3)
        by (simp add: process_pdf_report_def d sid' pdf_target_sanitized db)
    qed
  qed
  have zero: "n = 0" if "fst ?p = Inr n" for n
    using that by (auto simp: main split: if_splits sum.splits)
  have loop: "process_pdfs_loop lib w client_name output_folder branch_name client_address
              (report # rest) count s =
            process_pdfs_loop lib w client_name output_folder branch_name client_address
              rest count (snd ?p)"
    if "fst ?p = Inr n" for n
  proof -
    obtain r sf where rs: "?p = (r, sf)" by (cases ?p)
    with that have "r = Inr n" by simp
    moreover from that have "n = 0" by (rule zero)
    ultimately show ?thesis using rs by simp
  qed
  have a: "st_db (snd ?p) = st_db s" and b: "st_log (snd ?p) = st_log s"
    and c: "st_trace (snd ?p) = st_trace s @ (if truthy schedule_id then [?ev] else [])"
    by (simp_all add: main add_event_def)
  have e: "\<forall>n. fst ?p = Inr n \<longrightarrow>
            n = 0 \<and>
            process_pdfs_loop lib w client_name output_folder branch_name client_address
              (report # rest) count s =
            process_pdfs_loop lib w client_name output_folder branch_name client_address
              rest count (snd ?p)"
    using zero loop by blast
  show ?thesis
    by (intro conjI main a b c e)
qed

definition example_report :: json where
  "example_report =
     JObj [(lit ''schedule_id'', JInt 7), (lit ''employee_name'', JStr (lit ''Budi S.'')),
           (lit ''date_work'', JStr (lit ''2024-03-15''))]"

definition rendered_state :: state where
  "rendered_state =
     example_state\<lparr>st_db :=
       \<lparr>download_history =
          [\<lparr>h_id = 1, h_filename = lit ''STS_Report_Acme_2024-03-15_7.pdf'',
            h_category = lit ''Budi S/Acme/STS Reports'', h_url = lit ''api_generated_7'',
            h_download_date = 0\<rparr>],
        history_seq = 1, clients = [], write_lock = Unlocked\<rparr>\<rparr>"

lemma example_target:
  "pdf_target ascii_lib (JStr (lit ''Acme'')) example_report =
     Inr (lit ''STS_Report_Acme_2024-03-15_7.pdf'', lit ''Budi S/Acme/STS Reports'')"
  by (simp add: pdf_target_def example_report_def dict_get_def pdf_category_def
      sanitize_name_str strip_name_def rstrip_def replace_slash_def str_int_def)
     (simp add: ascii_lib_def ascii_isalnum_def ascii_isspace_def lit_def)

lemma example_schedule_id:
  "py_get example_report (lit ''schedule_id'') JNull = Inr (JInt 7)"
  by (simp add: example_report_def dict_get_def)

lemma example_rendered:
  "is_already_downloaded (st_db rendered_state)
     (lit ''STS_Report_Acme_2024-03-15_7.pdf'') (lit ''Budi S/Acme/STS Reports'')"
  by (simp add: rendered_state_def is_already_downloaded_def rows_with_key_def)

theorem rendered_report_is_skipped_witness:
  "pdf_target ascii_lib (JStr (lit ''Acme'')) example_report =
     Inr (lit ''STS_Report_Acme_2024-03-15_7.pdf'', lit ''Budi S/Acme/STS Reports'') \<and>
   py_get example_report (lit ''schedule_id'') JNull = Inr (JInt 7) \<and>
   is_already_downloaded (st_db rendered_state)
     (lit ''STS_Report_Acme_2024-03-15_7.pdf'') (lit ''Budi S/Acme/STS Reports'') \<and>
   process_pdf_report ascii_lib example_world (JStr (lit ''Acme'')) (lit ''out'')
       (JStr (lit ''N/A'')) (JStr (lit ''N/A'')) example_report rendered_state =
     (Inr 0,
      add_event (Api_call POST (lit ''/web/api/schedule/file-uploaded'')
                   (manifest_payload (JInt 7))) rendered_state) \<and>
   process_pdfs_loop ascii_lib example_world (JStr (lit ''Acme'')) (lit ''out'')
       (JStr (lit ''N/A'')) (JStr (lit ''N/A'')) [example_report] 0 rendered_state =
     (Inr 0,
      add_event (Api_call POST (lit ''/web/api/schedule/file-uploaded'')
                   (manifest_payload (JInt 7))) rendered_state)"
proof -
  have f: "fst (fetch_api_data example_world POST (lit ''/web/api/schedule/file-uploaded'')
                  (manifest_payload (JInt 7)) rendered_state) = Inr JNull"
    by (simp add: fetch_api_data_def example_world_def Let_def)
  note skipped = rendered_report_is_skipped[OF example_target example_schedule_id
      example_rendered,
      of example_world "lit ''out''" "JStr (lit ''N/A'')" "JStr (lit ''N/A'')" "[]" 0]
  from skipped have pass: "process_pdf_report ascii_lib example_world (JStr (lit ''Acme''))
       (lit ''out'') (JStr (lit ''N/A'')) (JStr (lit ''N/A'')) example_report rendered_state =
     (Inr 0,
      add_event (Api_call POST (lit ''/web/api/schedule/file-uploaded'')
                   (manifest_payload (JInt 7))) rendered_state)"
    by (simp add: f)
  then have "fst (process_pdf_report ascii_lib example_world (JStr (lit ''Acme''))
       (lit ''out'') (JStr (lit ''N/A'')) (JStr (lit ''N/A'')) example_report rendered_state) =
       Inr 0"
    by simp
  with skipped have "process_pdfs_loop ascii_lib example_world (JStr (lit ''Acme'')) (lit ''out'')
       (JStr (lit ''N/A'')) (JStr (lit ''N/A'')) [example_report] 0 rendered_state =
     process_pdfs_loop ascii_lib example_world (JStr (lit ''Acme'')) (lit ''out'')
       (JStr (lit ''N/A'')) (JStr (lit ''N/A'')) [] 0
       (snd (process_pdf_report ascii_lib example_world (JStr (lit ''Acme''))
       (lit ''out'') (JStr (lit ''N/A'')) (JStr (lit ''N/A'')) example_report rendered_state))"
    by blast
  with pass have loop: "process_pdfs_loop ascii_lib example_world (JStr (lit ''Acme'')) (lit ''out'')
       (JStr (lit ''N/A'')) (JStr (lit ''N/A'')) [example_report] 0 rendered_state =
     (Inr 0,
      add_event (Api_call POST (lit ''/web/api/schedule/file-uploaded'')
                   (manifest_payload (JInt 7))) rendered_state)"
    by simp
  from example_target example_schedule_id example_rendered pass loop show ?thesis
    by blast
qed

section \<open>The browser (\<open>_find_chrome_executable\<close>, \<open>_get_browser\<close>)\<close>

definition environ_get :: "world \<Rightarrow> pystr \<Rightarrow> pystr \<Rightarrow> pystr" where
  "environ_get w k dflt = (case w_environ w k of None \<Rightarrow> dflt | Some v \<Rightarrow> v)"

definition find_chrome_executable :: "pylib \<Rightarrow> world \<Rightarrow> event list \<Rightarrow> pystr option" where
  "find_chrome_executable lib w tr =
     List.find (w_path_exists w tr)
       [os_path_join lib (environ_get w (lit ''ProgramFiles'') (lit ''C:/Program Files''))
          [lit ''Google/Chrome/Application/chrome.exe''],
        os_path_join lib
          (environ_get w (lit ''ProgramFiles(x86)'') (lit ''C:/Program Files (x86)''))
          [lit ''Google/Chrome/Application/chrome.exe''],
        os_path_join lib (environ_get w (lit ''LOCALAPPDATA'') [])
          [lit ''Google/Chrome/Application/chrome.exe'']]"

text \<open>
  Lines 64 to 78: \<open>pyppeteer.launch\<close> under \<open>try\<close>. The result is whether
  \<open>self.browser\<close> is a browser afterwards.
\<close>

definition launch_browser :: "world \<Rightarrow> pystr \<Rightarrow> state \<Rightarrow> bool \<times> state" where
  "launch_browser w executable_path s =
     (let s1 = add_log (Log_using_browser executable_path) s;
          s2 = add_event (Launch executable_path) s1
      in case w_launch w (st_trace s1) executable_path of
           None \<Rightarrow> (True, add_log Log_browser_ok (s2\<lparr>has_browser := True\<rparr>))
         | Some e \<Rightarrow>
             (False, (add_log Log_browser_tip (add_log (Log_browser_fatal e) s2))
                       \<lparr>has_browser := False\<rparr>))"

text \<open>
  Lines 56 to 62: no path was found, so \<open>pyppeteer.launcher.executablePath()\<close> is
  asked; when it raises, the function returns \<open>None\<close>.
\<close>

definition launch_default :: "world \<Rightarrow> state \<Rightarrow> bool \<times> state" where
  "launch_default w s =
     (let s1 = add_log Log_chrome_fallback s in
      case w_default_executable w (st_trace s1) of
        Inl e \<Rightarrow> (False, add_log (Log_chromium_fatal e) s1)
      | Inr executable_path \<Rightarrow> launch_browser w executable_path s1)"

definition get_browser :: "pylib \<Rightarrow> world \<Rightarrow> state \<Rightarrow> bool \<times> state" where
  "get_browser lib w s =
     (if \<not> has_browser s \<or> \<not> w_browser_connected w (st_trace s) then
        (let s1 = add_log Log_browser_init s in
         if chrome_path s = [] \<or> \<not> w_path_exists w (st_trace s1) (chrome_path s) then
           (let s2 = add_log Log_chrome_path_missing s1 in
            case find_chrome_executable lib w (st_trace s2) of
              None \<Rightarrow> launch_default w s2
            | Some executable_path \<Rightarrow>
                (if executable_path = [] then launch_default w s2
                 else launch_browser w executable_path s2))
         else launch_browser w (chrome_path s) s1)
      else (True, s))"

section \<open>The orchestrator (\<open>fetch_and_download_all_data\<close>)\<close>

text \<open>The arguments of a run that stay fixed.\<close>

record run_params =
  p_max_workers :: int
  p_output_folder :: pystr
  p_start_date :: pystr
  p_end_date :: pystr
  p_selected_tech_ids :: json

text \<open>\<open>len(v)\<close>.\<close>

fun py_len :: "json \<Rightarrow> exn + nat" where
  "py_len (JList xs) = Inr (length xs)"
| "py_len (JObj kvs) = Inr (length kvs)"
| "py_len (JStr s) = Inr (length s)"
| "py_len _ = Inl TypeError"

text \<open>
  The comprehension \<open>{c['id']: c for c in clients}\<close>: a later entry with the same id
  takes the place of the earlier one; a list or a dict cannot be a key.
\<close>

fun clients_by_id :: "json list \<Rightarrow> (json \<times> json) list \<Rightarrow> exn + (json \<times> json) list" where
  "clients_by_id [] acc = Inr acc"
| "clients_by_id (c # cs) acc =
     (case py_getitem c (lit ''id'') of
        Inl e \<Rightarrow> Inl e
      | Inr i \<Rightarrow>
         (if is_list i \<or> is_dict i then Inl TypeError
          else clients_by_id cs (AList.update i c acc)))"

text \<open>
  \<open>_sync_clients\<close>, which \<open>run_in_executor\<close> runs on the thread of the event loop's
  executor.
\<close>

definition sync_clients_step :: "world \<Rightarrow> state \<Rightarrow> (exn + (json \<times> json) list) \<times> state" where
  "sync_clients_step w s =
     (case py_get (account_info s) (lit ''employee_branch_id'') JNull of
        Inl e \<Rightarrow> (Inl e, s)
      | Inr branch_id \<Rightarrow>
         (case fetch_api_data w GET (lit ''/web/api/client/no-paging'')
                 (JObj [(lit ''branch_id'', branch_id)]) s of
            (Inl e, s1) \<Rightarrow> (Inl e, s1)
          | (Inr clients', s1) \<Rightarrow>
             (if truthy clients' then
                (case sync_clients Executor_thread clients'
                        (free_orphaned (w_collected w (st_trace s1)) (st_db s1)) of
                   (Some e, db') \<Rightarrow> (Inl e, s1\<lparr>st_db := db'\<rparr>)
                 | (None, db') \<Rightarrow>
                    (case py_len clients' of
                       Inl e \<Rightarrow> (Inl e, s1\<lparr>st_db := db'\<rparr>)
                     | Inr n \<Rightarrow>
                        (let s2 = add_log (Log_synced_clients n) (s1\<lparr>st_db := db'\<rparr>) in
                         case py_iter clients' of
                           Inl e \<Rightarrow> (Inl e, s2)
                         | Inr cs \<Rightarrow>
                            (case clients_by_id cs [] of
                               Inl e \<Rightarrow> (Inl e, s2)
                             | Inr clients_dict \<Rightarrow> (Inr clients_dict, s2)))))
              else (Inr [], add_log Log_sync_warning s1))))"

text \<open>
  Lines 173 to 180: the reports in range go to the image pipeline and to the report
  pipeline, each under its flag; the totals are \<open>(total_images, total_pdfs)\<close>.
\<close>

definition dispatch_reports ::
  "pylib \<Rightarrow> world \<Rightarrow> run_params \<Rightarrow> bool \<Rightarrow> bool \<Rightarrow> json \<Rightarrow> json \<Rightarrow> json list \<Rightarrow> nat \<times> nat \<Rightarrow>
   state \<Rightarrow> (exn + nat \<times> nat) \<times> state" where
  "dispatch_reports lib w params download_pdfs download_images client_name full_contract_data
     reports_in_range totals s =
     (case (if download_images
            then (case process_images_for_reports lib w reports_in_range client_name
                         (p_output_folder params) (p_max_workers params) s of
                    (Inl e, s1) \<Rightarrow> (Inl e, s1)
                  | (Inr img_count, s1) \<Rightarrow> (Inr (fst totals + img_count), s1))
            else (Inr (fst totals), s)) of
        (Inl e, s1) \<Rightarrow> (Inl e, s1)
      | (Inr total_images, s1) \<Rightarrow>
         (if download_pdfs
          then (case process_pdfs_for_reports lib w reports_in_range full_contract_data
                       client_name (p_output_folder params) s1 of
                  (Inl e, s2) \<Rightarrow> (Inl e, s2)
                | (Inr pdf_count, s2) \<Rightarrow> (Inr (total_images, snd totals + pdf_count), s2))
          else (Inr (total_images, snd totals), s1)))"

text \<open>Lines 157 to 180: one contract.\<close>

definition process_contract ::
  "pylib \<Rightarrow> world \<Rightarrow> run_params \<Rightarrow> bool \<Rightarrow> bool \<Rightarrow> json \<Rightarrow> json \<Rightarrow> nat \<times> nat \<Rightarrow> state \<Rightarrow>
   (exn + nat \<times> nat) \<times> state" where
  "process_contract lib w params download_pdfs download_images client_name contract totals s =
     (case py_get contract (lit ''id'') JNull of
        Inl e \<Rightarrow> (Inl e, s)
      | Inr contract_id \<Rightarrow>
         (if \<not> truthy contract_id then (Inr totals, s)
          else case fetch_api_data w POST (lit ''/web/api/report/check-report-service'')
                      (JObj [(lit ''contract_id'', contract_id)]) s of
            (Inl e, s1) \<Rightarrow> (Inl e, s1)
          | (Inr full_contract_data, s1) \<Rightarrow>
             (case fetch_api_data w POST (lit ''/web/api/report/form-sts'')
                     (JObj [(lit ''contract_id'', contract_id),
                            (lit ''employee_ids'', p_selected_tech_ids params)]) s1 of
                (Inl e, s2) \<Rightarrow> (Inl e, s2)
              | (Inr sts_reports, s2) \<Rightarrow>
                 (if \<not> truthy sts_reports then (Inr totals, s2)
                  else case filter_reports_by_date lib sts_reports (p_start_date params)
                              (p_end_date params) of
                    Inl e \<Rightarrow> (Inl e, s2)
                  | Inr reports_in_range \<Rightarrow>
                     (if reports_in_range = [] then (Inr totals, s2)
                      else dispatch_reports lib w params download_pdfs download_images
                             client_name full_contract_data reports_in_range totals
                             (add_log (Log_found_reports (length reports_in_range) contract_id)
                                s2))))))"

fun contracts_loop ::
  "pylib \<Rightarrow> world \<Rightarrow> run_params \<Rightarrow> bool \<Rightarrow> bool \<Rightarrow> json \<Rightarrow> json list \<Rightarrow> nat \<times> nat \<Rightarrow> state \<Rightarrow>
   (exn + nat \<times> nat) \<times> state" where
  "contracts_loop lib w params download_pdfs download_images client_name [] totals s =
     (Inr totals, s)"
| "contracts_loop lib w params download_pdfs download_images client_name (contract # contracts)
     totals s =
     (case process_contract lib w params download_pdfs download_images client_name contract
             totals s of
        (Inl e, s') \<Rightarrow> (Inl e, s')
      | (Inr totals', s') \<Rightarrow>
          contracts_loop lib w params download_pdfs download_images client_name contracts
            totals' s')"

text \<open>Lines 150 to 156: one client; \<open>i\<close> counts from 0 and \<open>n\<close> is \<open>len(clients_dict)\<close>.\<close>

definition process_client ::
  "pylib \<Rightarrow> world \<Rightarrow> run_params \<Rightarrow> bool \<Rightarrow> bool \<Rightarrow> nat \<Rightarrow> nat \<Rightarrow> json \<times> json \<Rightarrow> nat \<times> nat \<Rightarrow>
   state \<Rightarrow> (exn + nat \<times> nat) \<times> state" where
  "process_client lib w params download_pdfs download_images n i client totals s =
     (case py_get (snd client) (lit ''name'')
             (JStr (lit ''Client_'' @ format_value lib (fst client))) of
        Inl e \<Rightarrow> (Inl e, s)
      | Inr client_name \<Rightarrow>
         (case fetch_api_data w GET
                 (lit ''/web/api/contract/'' @ format_value lib (fst client) @ lit ''/client'')
                 (JObj [(lit ''is_void'', JStr (lit ''yes''))])
                 (add_log (Log_client (i + 1) n client_name) s) of
            (Inl e, s1) \<Rightarrow> (Inl e, s1)
          | (Inr contracts, s1) \<Rightarrow>
             (if \<not> truthy contracts then (Inr totals, add_log Log_no_contracts s1)
              else case py_iter contracts of
                Inl e \<Rightarrow> (Inl e, s1)
              | Inr cs \<Rightarrow>
                  contracts_loop lib w params download_pdfs download_images client_name cs
                    totals s1)))"

fun clients_loop ::
  "pylib \<Rightarrow> world \<Rightarrow> run_params \<Rightarrow> bool \<Rightarrow> bool \<Rightarrow> nat \<Rightarrow> nat \<Rightarrow> (json \<times> json) list \<Rightarrow>
   nat \<times> nat \<Rightarrow> state \<Rightarrow> (exn + nat \<times> nat) \<times> state" where
  "clients_loop lib w params download_pdfs download_images n i [] totals s = (Inr totals, s)"
| "clients_loop lib w params download_pdfs download_images n i (client # rest) totals s =
     (case process_client lib w params download_pdfs download_images n i client totals s of
        (Inl e, s') \<Rightarrow> (Inl e, s')
      | (Inr totals', s') \<Rightarrow>
          clients_loop lib w params download_pdfs download_images n (i + 1) rest totals' s')"

text \<open>Lines 182 to 185: the summary.\<close>

definition log_summary :: "bool \<Rightarrow> bool \<Rightarrow> nat \<times> nat \<Rightarrow> state \<Rightarrow> state" where
  "log_summary download_pdfs download_images totals s =
     (let s1 = add_log Log_finished (add_log Log_separator s);
          s2 = (if download_images then add_log (Log_downloaded_images (fst totals)) s1 else s1)
      in if download_pdfs then add_log (Log_generated_pdfs (snd totals)) s2 else s2)"

text \<open>
  Lines 148 to 185: the walk over the clients and the summary, with the two flags as
  they stand after the browser was asked for. The result is the exception that ends the
  run, if any.
\<close>

definition sync_and_summarize ::
  "pylib \<Rightarrow> world \<Rightarrow> run_params \<Rightarrow> bool \<Rightarrow> bool \<Rightarrow> (json \<times> json) list \<Rightarrow> state \<Rightarrow>
   exn option \<times> state" where
  "sync_and_summarize lib w params download_pdfs download_images clients_dict s =
     (case clients_loop lib w params download_pdfs download_images (length clients_dict) 0
             clients_dict (0, 0) s of
        (Inl e, s') \<Rightarrow> (Some e, s')
      | (Inr totals, s') \<Rightarrow> (None, log_summary download_pdfs download_images totals s'))"

text \<open>
  Lines 142 to 146: with documents requested the browser is asked for; without a
  browser \<open>download_pdfs\<close> is set to \<open>False\<close> for the rest of the run.
\<close>

definition browser_gate :: "pylib \<Rightarrow> world \<Rightarrow> bool \<Rightarrow> state \<Rightarrow> bool \<times> state" where
  "browser_gate lib w download_pdfs s =
     (if download_pdfs
      then (case get_browser lib w s of
              (browser, s1) \<Rightarrow>
                (if \<not> browser then (False, add_log Log_pdfs_skipped s1) else (True, s1)))
      else (False, s))"

definition fetch_and_download_all_data ::
  "pylib \<Rightarrow> world \<Rightarrow> run_params \<Rightarrow> bool \<Rightarrow> bool \<Rightarrow> state \<Rightarrow> exn option \<times> state" where
  "fetch_and_download_all_data lib w params download_pdfs download_images s =
     (if auth_token s = None then (None, add_log Log_not_logged_in s)
      else case sync_clients_step w s of
        (Inl e, s1) \<Rightarrow> (Some e, s1)
      | (Inr clients_dict, s1) \<Rightarrow>
         (if clients_dict = [] then (None, add_log Log_abort_no_clients s1)
          else case browser_gate lib w download_pdfs s1 of
            (download_pdfs', s2) \<Rightarrow>
              sync_and_summarize lib w params download_pdfs' download_images clients_dict s2))"

definition example_params :: run_params where
  "example_params =
     \<lparr>p_max_workers = 4, p_output_folder = lit ''out'', p_start_date = lit ''2024-03-01'',
      p_end_date = lit ''2024-03-15'', p_selected_tech_ids = JList [JInt 5]\<rparr>"




subsection \<open>A run without documents\<close>

text \<open>
  The events of document production are the composer's call and the four page
  operations; the log lines of document production are \<open>Generating PDF\<close>,
  \<open>SUCCESS (PDF)\<close>, \<open>FAILED (PDF)\<close> and the count of the summary. \<open>no_documents s s'\<close>
  says that from \<open>s\<close> to \<open>s'\<close> no such event and no such line was added.
\<close>

fun render_event :: "event \<Rightarrow> bool" where
  "render_event (Compose r) = True"
| "render_event New_page = True"
| "render_event (Set_content h) = True"
| "render_event (Page_pdf p) = True"
| "render_event Page_close = True"
| "render_event _ = False"

fun pdf_line :: "log_line \<Rightarrow> bool" where
  "pdf_line (Log_generating_pdf i) = True"
| "pdf_line (Log_pdf_success f) = True"
| "pdf_line (Log_pdf_failed i e) = True"
| "pdf_line (Log_generated_pdfs n) = True"
| "pdf_line _ = False"

definition no_documents :: "state \<Rightarrow> state \<Rightarrow> bool" where
  "no_documents s s' =
     (filter render_event (st_trace s') = filter render_event (st_trace s) \<and>
      filter pdf_line (st_log s') = filter pdf_line (st_log s))"

lemma no_documents_refl [simp]: "no_documents s s"
  by (simp add: no_documents_def)

lemma no_documents_add_log [simp]:
  "\<not> pdf_line l \<Longrightarrow> no_documents s (add_log l s') = no_documents s s'"
  by (simp add: no_documents_def add_log_def)

lemma no_documents_add_event [simp]:
  "\<not> render_event e \<Longrightarrow> no_documents s (add_event e s') = no_documents s s'"
  by (simp add: no_documents_def add_event_def)

lemma no_documents_db [simp]: "no_documents s (s'\<lparr>st_db := d\<rparr>) = no_documents s s'"
  by (simp add: no_documents_def)

lemma no_documents_browser [simp]: "no_documents s (s'\<lparr>has_browser := b\<rparr>) = no_documents s s'"
  by (simp add: no_documents_def)

lemma fetch_no_documents:
  "fetch_api_data w m ep a s = (r, s') \<Longrightarrow> no_documents s0 s' = no_documents s0 s"
  using fetch_api_data_state[of w m ep a s] by simp

lemma worker_no_documents:
  "download_image_worker lib w t fi folder s = (r, s') \<Longrightarrow>
   no_documents s0 s' = no_documents s0 s"
  by (auto simp: download_image_worker_def Let_def
           split: sum.splits if_splits transfer.splits option.splits prod.splits)

lemma pool_no_documents:
  "download_pool lib w folder n running waiting finished c s = (c', s') \<Longrightarrow>
   no_documents s0 s' = no_documents s0 s"
proof (induction lib w folder n running waiting finished c s rule: download_pool.induct)
  case (1 lib w folder n running waiting finished c s)
  show ?case
  proof (cases "running = [] \<and> waiting = [] \<and> finished = []")
    case True
    with "1.prems" show ?thesis by simp
  next
    case False
    show ?thesis
    proof (cases "next_move w n running waiting finished s")
      case (Start t)
      from "1.prems" False Start have
        "download_pool lib w folder n (running @ [(t, hd waiting)]) (tl waiting) finished c s
           = (c', s')"
        by simp
      from "1.IH"(1)[OF False Start this] show ?thesis .
    next
      case (Finish k)
      obtain res s1 where wk:
        "download_image_worker lib w (Pool_thread (fst (running ! k))) (snd (running ! k))
           folder s = (res, s1)"
        by (cases "download_image_worker lib w (Pool_thread (fst (running ! k)))
                     (snd (running ! k)) folder s")
      from "1.prems" False Finish wk have
        "download_pool lib w folder n (take k running @ drop (Suc k) running) waiting
           (finished @ [(snd (running ! k), res)]) c s1 = (c', s')"
        by simp
      from "1.IH"(2)[OF False Finish wk[symmetric] this]
      have "no_documents s0 s' = no_documents s0 s1" .
      with worker_no_documents[OF wk, of s0] show ?thesis by simp
    next
      case (Report j)
      let ?p = "finished ! j"
      from "1.prems" False Report have
        "download_pool lib w folder n running waiting (take j finished @ drop (Suc j) finished)
           (if job_failed (snd ?p) then c else c + 1)
           (add_log (result_line (fst ?p) (snd ?p)) s) = (c', s')"
        by simp
      from "1.IH"(3)[OF False Report this]
      have "no_documents s0 s' =
            no_documents s0 (add_log (result_line (fst ?p) (snd ?p)) s)" .
      moreover have "\<not> pdf_line (result_line (fst ?p) (snd ?p))"
        by (cases "(fst ?p, snd ?p)" rule: result_line.cases) auto
      ultimately show ?thesis by simp
    qed
  qed
qed


lemma collect_report_no_documents:
  "collect_report lib w cn report acc s = (r, s') \<Longrightarrow> no_documents s0 s' = no_documents s0 s"
  by (auto simp: collect_report_def split: sum.splits if_splits prod.splits
           dest: fetch_no_documents)

lemma collect_files_no_documents:
  "collect_files lib w cn reports acc s = (r, s') \<Longrightarrow> no_documents s0 s' = no_documents s0 s"
proof (induction reports arbitrary: acc s)
  case Nil
  then show ?case by simp
next
  case (Cons report reports)
  obtain r1 s1 where c: "collect_report lib w cn report acc s = (r1, s1)"
    by (cases "collect_report lib w cn report acc s")
  note nd = collect_report_no_documents[OF c, of s0]
  show ?case
  proof (cases r1)
    case (Inl e)
    with Cons.prems c nd show ?thesis by simp
  next
    case (Inr files)
    with Cons.prems c have "collect_files lib w cn reports files s1 = (r, s')" by simp
    from Cons.IH[OF this] nd show ?thesis by simp
  qed
qed

lemma process_images_no_documents:
  assumes "process_images_for_reports lib w reports cn folder mw s = (r, s')"
  shows "no_documents s0 s' = no_documents s0 s"
proof -
  obtain r1 s1 where c: "collect_files lib w cn reports [] s = (r1, s1)"
    by (cases "collect_files lib w cn reports [] s")
  note nd = collect_files_no_documents[OF c, of s0]
  show ?thesis
  proof (cases r1)
    case (Inl e)
    with assms c nd show ?thesis by (simp add: process_images_for_reports_def)
  next
    case (Inr files)
    show ?thesis
    proof (cases "files = [] \<or> mw \<le> 0")
      case True
      with assms c nd Inr show ?thesis
        by (auto simp: process_images_for_reports_def Let_def split: if_splits)
    next
      case False
      obtain n s3 where p:
        "download_pool lib w folder (nat mw) [] files [] 0
           (add_log (Log_found_images (length files)) s1) = (n, s3)"
        by (cases "download_pool lib w folder (nat mw) [] files [] 0
                     (add_log (Log_found_images (length files)) s1)")
      from assms c Inr False p have "s' = s3\<lparr>st_db := shutdown_pool (st_db s3)\<rparr>"
        by (simp add: process_images_for_reports_def Let_def)
      with pool_no_documents[OF p, of s0] nd show ?thesis by simp
    qed
  qed
qed

lemma dispatch_no_documents:
  "dispatch_reports lib w params False di cn fcd reports totals s = (r, s') \<Longrightarrow>
   no_documents s0 s' = no_documents s0 s"
  by (auto simp: dispatch_reports_def split: sum.splits if_splits prod.splits
           dest: process_images_no_documents)

lemma process_contract_no_documents:
  "process_contract lib w params False di cn contract totals s = (r, s') \<Longrightarrow>
   no_documents s0 s' = no_documents s0 s"
  by (auto simp: process_contract_def split: sum.splits if_splits prod.splits
           dest!: fetch_no_documents[where ?s0.0 = s0] dispatch_no_documents[where ?s0.0 = s0])

lemma contracts_loop_no_documents:
  "contracts_loop lib w params False di cn contracts totals s = (r, s') \<Longrightarrow>
   no_documents s0 s' = no_documents s0 s"
proof (induction contracts arbitrary: totals s)
  case Nil
  then show ?case by simp
next
  case (Cons contract contracts)
  obtain r1 s1 where c: "process_contract lib w params False di cn contract totals s = (r1, s1)"
    by (cases "process_contract lib w params False di cn contract totals s")
  note nd = process_contract_no_documents[OF c, of s0]
  show ?case
  proof (cases r1)
    case (Inl e)
    with Cons.prems c nd show ?thesis by simp
  next
    case (Inr totals')
    with Cons.prems c have
      "contracts_loop lib w params False di cn contracts totals' s1 = (r, s')" by simp
    from Cons.IH[OF this] nd show ?thesis by simp
  qed
qed

lemma process_client_no_documents:
  "process_client lib w params False di n i client totals s = (r, s') \<Longrightarrow>
   no_documents s0 s' = no_documents s0 s"
  by (auto simp: process_client_def split: sum.splits if_splits prod.splits
           dest!: fetch_no_documents[where ?s0.0 = s0]
                  contracts_loop_no_documents[where ?s0.0 = s0])

lemma clients_loop_no_documents:
  "clients_loop lib w params False di n i cd totals s = (r, s') \<Longrightarrow>
   no_documents s0 s' = no_documents s0 s"
proof (induction cd arbitrary: i totals s)
  case Nil
  then show ?case by simp
next
  case (Cons client rest)
  obtain r1 s1 where c: "process_client lib w params False di n i client totals s = (r1, s1)"
    by (cases "process_client lib w params False di n i client totals s")
  note nd = process_client_no_documents[OF c, of s0]
  show ?case
  proof (cases r1)
    case (Inl e)
    with Cons.prems c nd show ?thesis by simp
  next
    case (Inr totals')
    with Cons.prems c have
      "clients_loop lib w params False di n (i + 1) rest totals' s1 = (r, s')" by simp
    from Cons.IH[OF this] nd show ?thesis by simp
  qed
qed

lemma log_summary_no_documents:
  "no_documents s0 (log_summary False di totals s) = no_documents s0 s"
  by (simp add: log_summary_def Let_def)

lemma sync_and_summarize_no_documents:
  "sync_and_summarize lib w params False di cd s = (r, s') \<Longrightarrow>
   no_documents s0 s' = no_documents s0 s"
  by (auto simp: sync_and_summarize_def log_summary_no_documents
           split: sum.splits prod.splits dest!: clients_loop_no_documents[where ?s0.0 = s0])

lemma launch_browser_no_documents:
  "launch_browser w p s = (b, s') \<Longrightarrow> no_documents s0 s' = no_documents s0 s"
  by (auto simp: launch_browser_def Let_def split: option.splits)

lemma launch_default_no_documents:
  "launch_default w s = (b, s') \<Longrightarrow> no_documents s0 s' = no_documents s0 s"
  by (auto simp: launch_default_def Let_def split: sum.splits
           dest!: launch_browser_no_documents[where ?s0.0 = s0])

lemma get_browser_no_documents:
  "get_browser lib w s = (b, s') \<Longrightarrow> no_documents s0 s' = no_documents s0 s"
  by (auto simp: get_browser_def Let_def split: if_splits option.splits
           dest!: launch_browser_no_documents[where ?s0.0 = s0]
                  launch_default_no_documents[where ?s0.0 = s0])

lemma sync_clients_step_no_documents:
  "sync_clients_step w s = (r, s') \<Longrightarrow> no_documents s0 s' = no_documents s0 s"
  by (auto simp: sync_clients_step_def Let_def
           split: sum.splits if_splits prod.splits option.splits
           dest!: fetch_no_documents[where ?s0.0 = s0])


lemma no_documents_lines:
  assumes "no_documents s s'" and "pdf_line l" and "l \<notin> set (st_log s)"
  shows "l \<notin> set (st_log s')"
proof -
  from assms(1) have "set (filter pdf_line (st_log s')) = set (filter pdf_line (st_log s))"
    by (simp add: no_documents_def)
  with assms(2,3) show ?thesis by auto
qed

lemma no_documents_events:
  assumes "no_documents s s'" and "render_event ev" and "ev \<notin> set (st_trace s)"
  shows "ev \<notin> set (st_trace s')"
proof -
  from assms(1) have "set (filter render_event (st_trace s')) = set (filter render_event (st_trace s))"
    by (simp add: no_documents_def)
  with assms(2,3) show ?thesis by auto
qed

text \<open>
  Claim C4, as the code has it. Let the run be logged in, let the client list be
  synced and not empty, and let \<open>_get_browser\<close> return no browser although documents
  were requested. Then the run is, from there on, the run with \<open>download_pdfs = False\<close>
  (so the image pipeline is dispatched exactly as without documents); no composer call
  and no page operation is added to the trace and no line of document production is
  added to the log; and a run that reaches its summary logs the summary of a run
  without documents, which has no line \<open>Generated n new PDF report(s)\<close>: the count of
  documents is not reported, not even as 0.
\<close>

theorem browser_failure_disables_documents:
  assumes "auth_token s \<noteq> None"
    and "sync_clients_step w s = (Inr clients_dict, s1)"
    and "clients_dict \<noteq> []"
    and "get_browser lib w s1 = (False, s2)"
  shows "fetch_and_download_all_data lib w params True download_images s =
           sync_and_summarize lib w params False download_images clients_dict
             (add_log Log_pdfs_skipped s2) \<and>
         no_documents s
           (snd (fetch_and_download_all_data lib w params True download_images s)) \<and>
         (\<forall>ev. render_event ev \<and> ev \<notin> set (st_trace s) \<longrightarrow>
            ev \<notin> set (st_trace
                     (snd (fetch_and_download_all_data lib w params True download_images s)))) \<and>
         (\<forall>n. Log_generated_pdfs n \<notin> set (st_log s) \<longrightarrow>
            Log_generated_pdfs n \<notin> set (st_log
                     (snd (fetch_and_download_all_data lib w params True download_images s)))) \<and>
         (fst (fetch_and_download_all_data lib w params True download_images s) = None \<longrightarrow>
            (\<exists>totals s'.
               snd (fetch_and_download_all_data lib w params True download_images s) =
               log_summary False download_images totals s'))"
proof -
  let ?run = "fetch_and_download_all_data lib w params True download_images s"
  let ?s3 = "add_log Log_pdfs_skipped s2"
  have run: "?run = sync_and_summarize lib w params False download_images clients_dict ?s3"
    using assms by (auto simp: fetch_and_download_all_data_def browser_gate_def)
  obtain r sf where rs: "sync_and_summarize lib w params False download_images clients_dict ?s3
                         = (r, sf)"
    by (cases "sync_and_summarize lib w params False download_images clients_dict ?s3")
  have "no_documents s s1"
    using sync_clients_step_no_documents[OF assms(2), of s] by simp
  then have "no_documents s s2"
    using get_browser_no_documents[OF assms(4), of s] by simp
  then have "no_documents s ?s3" by simp
  then have nd: "no_documents s sf"
    using sync_and_summarize_no_documents[OF rs, of s] by simp
  have snd_run: "snd ?run = sf" and fst_run: "fst ?run = r"
    using run rs by simp_all
  have ev: "\<forall>ev. render_event ev \<and> ev \<notin> set (st_trace s) \<longrightarrow> ev \<notin> set (st_trace (snd ?run))"
    unfolding snd_run using nd no_documents_events by blast
  have ln: "\<forall>n. Log_generated_pdfs n \<notin> set (st_log s) \<longrightarrow>
                Log_generated_pdfs n \<notin> set (st_log (snd ?run))"
    unfolding snd_run using nd no_documents_lines[of s sf] by simp
  have sm: "fst ?run = None \<longrightarrow>
              (\<exists>totals s'. snd ?run = log_summary False download_images totals s')"
    unfolding snd_run fst_run using rs
    by (auto simp: sync_and_summarize_def split: sum.splits prod.splits)
  from nd have nd': "no_documents s (snd ?run)" by (simp only: snd_run)
  show ?thesis
    by (intro conjI run nd' ev ln sm)
qed

subsection \<open>The run on the example world\<close>

lemma example_run_log:
  "st_log (snd (fetch_and_download_all_data ascii_lib example_world example_params True True
            example_state)) =
     [Log_synced_clients 1, Log_browser_init, Log_chrome_path_missing, Log_chrome_fallback,
      Log_using_browser (lit ''chrome''), Log_browser_fatal ExternalError, Log_browser_tip,
      Log_pdfs_skipped, Log_client 1 1 (JStr (lit ''Acme'')), Log_no_contracts,
      Log_separator, Log_finished, Log_downloaded_images 0]"
  by code_simp

lemma example_run_result:
  "fst (fetch_and_download_all_data ascii_lib example_world example_params True True
            example_state) = None"
  by code_simp

lemma example_browser_fails:
  "fst (get_browser ascii_lib example_world (snd (sync_clients_step example_world example_state)))
     = False"
  by code_simp

lemma example_sync_ok:
  "fst (sync_clients_step example_world example_state) =
     Inr [(JInt 1, JObj [(lit ''id'', JInt 1), (lit ''name'', JStr (lit ''Acme''))])]"
  by code_simp
lemma example_log_before: "Log_generated_pdfs 0 \<notin> set (st_log example_state)"
  by (simp add: example_state_def)

theorem browser_failure_disables_documents_witness:
  "auth_token example_state \<noteq> None \<and>
   fst (sync_clients_step example_world example_state) =
     Inr [(JInt 1, JObj [(lit ''id'', JInt 1), (lit ''name'', JStr (lit ''Acme''))])] \<and>
   fst (get_browser ascii_lib example_world (snd (sync_clients_step example_world example_state)))
     = False \<and>
   fetch_and_download_all_data ascii_lib example_world example_params True True example_state =
     sync_and_summarize ascii_lib example_world example_params False True
       [(JInt 1, JObj [(lit ''id'', JInt 1), (lit ''name'', JStr (lit ''Acme''))])]
       (add_log Log_pdfs_skipped
          (snd (get_browser ascii_lib example_world
                  (snd (sync_clients_step example_world example_state))))) \<and>
   no_documents example_state
     (snd (fetch_and_download_all_data ascii_lib example_world example_params True True
             example_state)) \<and>
   Log_generated_pdfs 0 \<notin> set (st_log example_state) \<and>
   Log_generated_pdfs 0 \<notin> set (st_log
     (snd (fetch_and_download_all_data ascii_lib example_world example_params True True
             example_state))) \<and>
   fst (fetch_and_download_all_data ascii_lib example_world example_params True True
          example_state) = None \<and>
   (\<exists>totals s'.
      snd (fetch_and_download_all_data ascii_lib example_world example_params True True
             example_state) = log_summary False True totals s')"
proof -
  let ?cd = "[(JInt 1, JObj [(lit ''id'', JInt 1), (lit ''name'', JStr (lit ''Acme''))])]"
  let ?s1 = "snd (sync_clients_step example_world example_state)"
  let ?s2 = "snd (get_browser ascii_lib example_world ?s1)"
  have a: "auth_token example_state \<noteq> None"
    by (simp add: example_state_def)
  have b: "sync_clients_step example_world example_state = (Inr ?cd, ?s1)"
    by (simp add: prod_eq_iff example_sync_ok)
  have c: "?cd \<noteq> []" by simp
  have d: "get_browser ascii_lib example_world ?s1 = (False, ?s2)"
    by (simp add: prod_eq_iff example_browser_fails)
  from browser_failure_disables_documents[OF a b c d, of example_params True]
  show ?thesis
    using a example_sync_ok example_browser_fails example_log_before example_run_result
    by blast
qed

text \<open>
  The claim as stated fails on the example world: the browser does not launch, the run
  reaches its summary, and the summary has the count of images only.
\<close>

theorem summary_reports_no_documents_counterexample:
  "fst (get_browser ascii_lib example_world (snd (sync_clients_step example_world example_state)))
     = False \<and>
   fst (fetch_and_download_all_data ascii_lib example_world example_params True True
          example_state) = None \<and>
   st_log (snd (fetch_and_download_all_data ascii_lib example_world example_params True True
            example_state)) =
     [Log_synced_clients 1, Log_browser_init, Log_chrome_path_missing, Log_chrome_fallback,
      Log_using_browser (lit ''chrome''), Log_browser_fatal ExternalError, Log_browser_tip,
      Log_pdfs_skipped, Log_client 1 1 (JStr (lit ''Acme'')), Log_no_contracts,
      Log_separator, Log_finished, Log_downloaded_images 0] \<and>
   Log_generated_pdfs 0 \<notin> set (st_log (snd (fetch_and_download_all_data ascii_lib
      example_world example_params True True example_state)))"
  by (simp add: example_browser_fails example_run_result example_run_log)


end
